theory Spec2Isabelle
  imports Complex_Main
begin

section \<open>The case data model (types.ts)\<close>

text \<open>
  The TypeScript interfaces of \<^verbatim>\<open>types.ts\<close> become records. Field names carry a short
  prefix (\<open>i_\<close> for Issue, \<open>e_\<close> for EvidenceItem, \<open>c_\<close> for Communication, \<open>p_\<close> for
  LandlordPromise), since several interfaces share the names \<^verbatim>\<open>id\<close> and \<^verbatim>\<open>status\<close>.
  The string-literal unions (\<^verbatim>\<open>Severity\<close>, \<^verbatim>\<open>IssueStatus\<close>, \<^verbatim>\<open>CommunicationMethod\<close>,
  \<^verbatim>\<open>PromiseStatus\<close>) are strings at run time and the create-issue flow stores whatever the
  classifier answered after an \<^verbatim>\<open>as any\<close> cast, so they stay strings here.
\<close>

record Issue =
  i_id :: string
  i_title :: string
  i_category :: string
  i_room :: string
  i_severity :: string
  i_status :: string
  i_first_noticed_at :: string
  i_description :: string
  i_habitability_categories :: "string list"

record EvidenceItem =
  e_id :: string
  e_issue_id :: string
  e_file_reference :: string
  e_captured_at :: string
  e_uploaded_at :: string
  e_ai_caption :: string
  e_user_caption :: string

record LandlordPromise =
  p_id :: string
  p_description :: string
  p_promised_completion_date :: string
  p_promised_by :: string
  p_status :: string

record Communication =
  c_id :: string
  c_date :: string
  c_method :: string
  c_tenant_message :: string
  c_landlord_response :: string
  c_linked_issue_ids :: "string list"
  c_promises :: "LandlordPromise list"

text \<open>
  The metadata object is handled dynamically by the source: the \<^verbatim>\<open>UPDATE_META\<close> payload
  has type \<^verbatim>\<open>any\<close>, its keys are computed from a dotted field path, and the reducer
  spreads it over the old object. It is therefore modelled as a JavaScript object: an
  association list from property names to values, a value being a string or an object.
\<close>

datatype jsval = JStr string | JObj "(string \<times> jsval) list"

type_synonym jsobj = "(string \<times> jsval) list"

record TenantCase =
  meta :: jsobj
  issues :: "Issue list"
  evidence :: "EvidenceItem list"
  communications :: "Communication list"

subsection \<open>JavaScript objects: property read, computed-key write, spread\<close>

text \<open>\<^verbatim>\<open>obj[k]\<close>: the value of property \<open>k\<close>, \<open>None\<close> for \<^verbatim>\<open>undefined\<close>.\<close>

definition getProp :: "jsobj \<Rightarrow> string \<Rightarrow> jsval option" where
  "getProp obj k = map_of obj k"

text \<open>\<^verbatim>\<open>{...obj, [k]: v}\<close>: an existing property keeps its place, a new one goes last.\<close>

fun setProp :: "string \<Rightarrow> jsval \<Rightarrow> jsobj \<Rightarrow> jsobj" where
  "setProp k v [] = [(k, v)]"
| "setProp k v (p # ps) = (if fst p = k then (k, v) # ps else p # setProp k v ps)"

text \<open>\<^verbatim>\<open>{...a, ...b}\<close>: the properties of \<open>b\<close> written over \<open>a\<close>, in the order of \<open>b\<close>.\<close>

fun spreadOver :: "jsobj \<Rightarrow> jsobj \<Rightarrow> jsobj" where
  "spreadOver a [] = a"
| "spreadOver a ((k, v) # b) = spreadOver (setProp k v a) b"

text \<open>Decimal digits of an index, for the property names a spread string gets.\<close>

fun decimal :: "nat \<Rightarrow> string" where
  "decimal n =
     (if n < 10 then [char_of (48 + n)]
      else decimal (n div 10) @ [char_of (48 + n mod 10)])"

declare decimal.simps [simp del]

fun indexedChars :: "nat \<Rightarrow> string \<Rightarrow> jsobj" where
  "indexedChars k [] = []"
| "indexedChars k (ch # s) = (decimal k, JStr [ch]) # indexedChars (Suc k) s"

text \<open>
  \<^verbatim>\<open>{...v}\<close> for the value read from \<^verbatim>\<open>meta[parent]\<close>: an object gives its own
  properties, \<^verbatim>\<open>undefined\<close> gives none, a string gives its characters under their indices.
\<close>

fun spreadVal :: "jsval option \<Rightarrow> jsobj" where
  "spreadVal None = []"
| "spreadVal (Some (JObj ps)) = ps"
| "spreadVal (Some (JStr s)) = indexedChars 0 s"

section \<open>The Case Store (App.tsx: caseReducer, constants.ts: EMPTY_CASE)\<close>

definition EMPTY_CASE :: TenantCase where
  "EMPTY_CASE =
     \<lparr> meta =
         [ (''id'', JStr ''''),
           (''property_address'', JStr ''''),
           (''landlord_contact'',
              JObj [(''name'', JStr ''''), (''phone'', JStr ''''),
                    (''email'', JStr ''''), (''other'', JStr '''')]),
           (''lease'', JObj [(''start_date'', JStr ''''), (''end_date'', JStr '''')]) ],
       issues = [],
       evidence = [],
       communications = [] \<rparr>"

datatype Action =
    UPDATE_META jsobj
  | ADD_ISSUE Issue
  | ADD_EVIDENCE EvidenceItem
  | ADD_COMMUNICATION Communication
  | SET_REPORT string string string
  | LOAD_CASE TenantCase
  | RESET_CASE

text \<open>\<^verbatim>\<open>SET_REPORT\<close> is declared in the action type and has no case: it reaches \<^verbatim>\<open>default\<close>.\<close>

fun caseReducer :: "TenantCase \<Rightarrow> Action \<Rightarrow> TenantCase" where
  "caseReducer state (UPDATE_META payload) = state\<lparr> meta := spreadOver (meta state) payload \<rparr>"
| "caseReducer state (ADD_ISSUE payload) = state\<lparr> issues := issues state @ [payload] \<rparr>"
| "caseReducer state (ADD_EVIDENCE payload) = state\<lparr> evidence := evidence state @ [payload] \<rparr>"
| "caseReducer state (ADD_COMMUNICATION payload) =
     state\<lparr> communications := communications state @ [payload] \<rparr>"
| "caseReducer state (LOAD_CASE payload) = payload"
| "caseReducer state RESET_CASE = EMPTY_CASE"
| "caseReducer state (SET_REPORT snippet timeline pattern) = state"

text \<open>The three append operations of the store, as a caller names them.\<close>

datatype AddCall = AddIssue Issue | AddEvidence EvidenceItem | AddCommunication Communication

fun addAction :: "AddCall \<Rightarrow> Action" where
  "addAction (AddIssue i) = ADD_ISSUE i"
| "addAction (AddEvidence e) = ADD_EVIDENCE e"
| "addAction (AddCommunication c) = ADD_COMMUNICATION c"

fun issuesOf :: "AddCall list \<Rightarrow> Issue list" where
  "issuesOf [] = []"
| "issuesOf (AddIssue i # cs) = i # issuesOf cs"
| "issuesOf (_ # cs) = issuesOf cs"

fun evidenceOf :: "AddCall list \<Rightarrow> EvidenceItem list" where
  "evidenceOf [] = []"
| "evidenceOf (AddEvidence e # cs) = e # evidenceOf cs"
| "evidenceOf (_ # cs) = evidenceOf cs"

fun communicationsOf :: "AddCall list \<Rightarrow> Communication list" where
  "communicationsOf [] = []"
| "communicationsOf (AddCommunication c # cs) = c # communicationsOf cs"
| "communicationsOf (_ # cs) = communicationsOf cs"

text \<open>Dispatching a sequence of actions: the reducer is applied to each in turn.\<close>

definition dispatchAll :: "TenantCase \<Rightarrow> Action list \<Rightarrow> TenantCase" where
  "dispatchAll state as = foldl caseReducer state as"

text \<open>
  A sequence of actions dispatched in turn from a Case, checked for dangling evidence:
  each \<^verbatim>\<open>ADD_EVIDENCE\<close> must find, in the Case as it is when the action arrives, an Issue
  with the id it references.
\<close>

fun evidenceFindsIssue :: "TenantCase \<Rightarrow> Action list \<Rightarrow> bool" where
  "evidenceFindsIssue state [] = True"
| "evidenceFindsIssue state (ADD_EVIDENCE ev # rest) =
     (e_issue_id ev \<in> i_id ` set (issues state)
      \<and> evidenceFindsIssue (caseReducer state (ADD_EVIDENCE ev)) rest)"
| "evidenceFindsIssue state (a # rest) = evidenceFindsIssue (caseReducer state a) rest"

section \<open>The handlers of App.tsx\<close>

text \<open>
  The component state the handlers read and write: the reducer's Case, the actions handed
  to \<^verbatim>\<open>dispatch\<close> so far (in the order of the calls), the \<^verbatim>\<open>isAnalyzing\<close> flag, the two
  inputs of the new-issue form, and the messages shown with \<^verbatim>\<open>alert\<close>, in order.
\<close>

record File =
  f_name :: string
  f_type :: string

record App =
  tenantCase :: TenantCase
  dispatched :: "Action list"
  isAnalyzing :: bool
  newIssueText :: string
  newIssueImage :: "File option"
  alerts :: "string list"

text \<open>
  \<^verbatim>\<open>dispatch(action)\<close>: React queues the action behind the earlier ones and applies the
  reducer to the current Case.
\<close>

definition dispatch :: "Action \<Rightarrow> App \<Rightarrow> App" where
  "dispatch a app =
     app\<lparr> tenantCase := caseReducer (tenantCase app) a, dispatched := dispatched app @ [a] \<rparr>"

subsection \<open>handleUpdateMeta\<close>

text \<open>\<^verbatim>\<open>s.split(c)\<close> for a one-character separator: never empty, and the empty string gives one empty part.\<close>

fun splitOn :: "char \<Rightarrow> string \<Rightarrow> string list" where
  "splitOn c [] = [[]]"
| "splitOn c (x # xs) =
     (if x = c then [] # splitOn c xs
      else (case splitOn c xs of
              [] \<Rightarrow> [[x]]
            | w # ws \<Rightarrow> (x # w) # ws))"

text \<open>
  An element of the destructured array used as a computed key: a missing element is
  \<^verbatim>\<open>undefined\<close>, which as a property name is the string \<^verbatim>\<open>undefined\<close>.
\<close>

definition keyAt :: "string list \<Rightarrow> nat \<Rightarrow> string" where
  "keyAt parts k = (if k < length parts then parts ! k else ''undefined'')"

text \<open>
  The handler closes over the Case of the latest render; events are handled one per
  render, so that Case is the one the reducer then updates.
\<close>

definition handleUpdateMeta :: "string \<Rightarrow> jsval \<Rightarrow> App \<Rightarrow> App" where
  "handleUpdateMeta field val app =
     (if CHR ''.'' \<in> set field then
        (let parts = splitOn (CHR ''.'') field;
             parent = keyAt parts 0;
             child = keyAt parts 1
         in dispatch
              (UPDATE_META
                 [(parent,
                   JObj (setProp child val
                           (spreadVal (getProp (meta (tenantCase app)) parent))))])
              app)
      else dispatch (UPDATE_META [(field, val)]) app)"

subsection \<open>handleCreateIssue\<close>

text \<open>
  The classifier's answer (\<^verbatim>\<open>AIAnalysisResponse\<close>), reduced to the two members the flow
  reads. Every member of a \<^verbatim>\<open>Partial\<close> may be absent (\<open>None\<close>).
\<close>

record PartialIssue =
  pi_title :: "string option"
  pi_category :: "string option"
  pi_room :: "string option"
  pi_severity :: "string option"
  pi_status :: "string option"
  pi_first_noticed_at :: "string option"
  pi_description :: "string option"
  pi_habitability_categories :: "string list option"

record PartialEvidenceItem =
  pe_ai_caption :: "string option"

record AIAnalysisResponse =
  r_issue :: "PartialIssue option"
  r_evidence_items :: "PartialEvidenceItem list option"

datatype error = FileReadError | AnalysisError

text \<open>
  What one run of the flow gets from outside: the outcome of reading the image file, the
  outcome of the classifier call for the arguments it is given (\<open>Inl\<close> when the promise
  rejects), the identifiers \<^verbatim>\<open>uuidv4()\<close> returns (by number of the call), and the instants
  \<^verbatim>\<open>new Date()\<close> returns (by number of the call), each as its calendar fields in UTC.
\<close>

text \<open>
  An instant in its UTC fields: year, month (1 to 12), day of the month, hours, minutes,
  seconds, milliseconds.
\<close>

record UtcTime =
  utc_year :: int
  utc_month :: nat
  utc_day :: nat
  utc_hours :: nat
  utc_minutes :: nat
  utc_seconds :: nat
  utc_milliseconds :: nat

record Collaborators =
  fileToBase64 :: "File \<Rightarrow> error + string"
  analyzeIssueWithEvidence ::
    "string \<Rightarrow> string option \<Rightarrow> string option \<Rightarrow> error + AIAnalysisResponse"
  uuidv4 :: "nat \<Rightarrow> string"
  newDate :: "nat \<Rightarrow> UtcTime"

text \<open>A number in decimal, filled with zeros on the left to a width.\<close>

definition pad :: "nat \<Rightarrow> nat \<Rightarrow> string" where
  "pad width n = replicate (width - length (decimal n)) (CHR ''0'') @ decimal n"

text \<open>The year of an ISO timestamp: four digits from 0 to 9999, a sign and six digits otherwise.\<close>

definition isoYear :: "int \<Rightarrow> string" where
  "isoYear y =
     (if 0 \<le> y \<and> y \<le> 9999 then pad 4 (nat y)
      else (if y < 0 then ''-'' else ''+'') @ pad 6 (nat \<bar>y\<bar>))"

text \<open>The calendar date of an ISO timestamp: \<^verbatim>\<open>YYYY-MM-DD\<close>.\<close>

definition isoDate :: "UtcTime \<Rightarrow> string" where
  "isoDate t = isoYear (utc_year t) @ ''-'' @ pad 2 (utc_month t) @ ''-'' @ pad 2 (utc_day t)"

text \<open>
  \<^verbatim>\<open>date.toISOString()\<close>, a built-in of the JavaScript runtime: the instant in UTC as
  \<^verbatim>\<open>YYYY-MM-DDTHH:mm:ss.sssZ\<close>.
\<close>

definition toISOString :: "UtcTime \<Rightarrow> string" where
  "toISOString t =
     isoDate t @ ''T'' @ pad 2 (utc_hours t) @ '':'' @ pad 2 (utc_minutes t) @ '':''
     @ pad 2 (utc_seconds t) @ ''.'' @ pad 3 (utc_milliseconds t) @ ''Z''"

text \<open>\<^verbatim>\<open>a || b\<close> on an optional string: absent and empty are both falsy.\<close>

fun orElse :: "string option \<Rightarrow> string \<Rightarrow> string" where
  "orElse None d = d"
| "orElse (Some s) d = (if s = [] then d else s)"

text \<open>\<^verbatim>\<open>a || []\<close> on an optional array: every array is truthy, the empty one too.\<close>

fun orEmpty :: "string list option \<Rightarrow> string list" where
  "orEmpty None = []"
| "orEmpty (Some xs) = xs"

text \<open>\<^verbatim>\<open>response.issue?.f\<close>.\<close>

definition issueField :: "AIAnalysisResponse \<Rightarrow> (PartialIssue \<Rightarrow> 'a option) \<Rightarrow> 'a option" where
  "issueField response f = (case r_issue response of None \<Rightarrow> None | Some i \<Rightarrow> f i)"

text \<open>\<^verbatim>\<open>stamp.split('T')[0]\<close>: what stands before the first \<^verbatim>\<open>T\<close> of a timestamp.\<close>

definition datePart :: "string \<Rightarrow> string" where
  "datePart stamp = hd (splitOn (CHR ''T'') stamp)"

definition newIssue :: "Collaborators \<Rightarrow> string \<Rightarrow> AIAnalysisResponse \<Rightarrow> Issue" where
  "newIssue co text response =
     \<lparr> i_id = uuidv4 co 0,
       i_title = orElse (issueField response pi_title) ''New Issue'',
       i_category = orElse (issueField response pi_category) ''General'',
       i_room = orElse (issueField response pi_room) ''Unknown'',
       i_severity = orElse (issueField response pi_severity) ''medium'',
       i_status = orElse (issueField response pi_status) ''ongoing'',
       i_first_noticed_at =
         orElse (issueField response pi_first_noticed_at) (datePart (toISOString (newDate co 0))),
       i_description = orElse (issueField response pi_description) text,
       i_habitability_categories = orEmpty (issueField response pi_habitability_categories) \<rparr>"

text \<open>
  The clock is read for \<^verbatim>\<open>first_noticed_at\<close> only when the classifier gave none; the
  evidence item's two timestamps are the next two readings.
\<close>

definition clockReadsForIssue :: "AIAnalysisResponse \<Rightarrow> nat" where
  "clockReadsForIssue response =
     (case issueField response pi_first_noticed_at of
        None \<Rightarrow> 1
      | Some s \<Rightarrow> if s = [] then 1 else 0)"

definition newEvidence ::
  "Collaborators \<Rightarrow> Issue \<Rightarrow> string \<Rightarrow> AIAnalysisResponse \<Rightarrow> PartialEvidenceItem \<Rightarrow> EvidenceItem" where
  "newEvidence co issue imageBase64 response ev =
     \<lparr> e_id = uuidv4 co 1,
       e_issue_id = i_id issue,
       e_file_reference = imageBase64,
       e_captured_at = toISOString (newDate co (clockReadsForIssue response)),
       e_uploaded_at = toISOString (newDate co (Suc (clockReadsForIssue response))),
       e_ai_caption = orElse (pe_ai_caption ev) ''Evidence image'',
       e_user_caption = [] \<rparr>"

text \<open>
  The two awaits of the \<^verbatim>\<open>try\<close> block: the image, when there is one, is read first; then
  the classifier is called with the text, the encoded image and its MIME type. An error of
  either is the error of the block.
\<close>

definition awaitAnalysis ::
  "Collaborators \<Rightarrow> App \<Rightarrow> error + (string option \<times> AIAnalysisResponse)" where
  "awaitAnalysis co app =
     (case newIssueImage app of
        None \<Rightarrow>
          (case analyzeIssueWithEvidence co (newIssueText app) None None of
             Inl e \<Rightarrow> Inl e
           | Inr response \<Rightarrow> Inr (None, response))
      | Some file \<Rightarrow>
          (case fileToBase64 co file of
             Inl e \<Rightarrow> Inl e
           | Inr imageBase64 \<Rightarrow>
               (case analyzeIssueWithEvidence co (newIssueText app)
                       (Some imageBase64) (Some (f_type file)) of
                  Inl e \<Rightarrow> Inl e
                | Inr response \<Rightarrow> Inr (Some imageBase64, response))))"

text \<open>
  The guard \<^verbatim>\<open>imageBase64 && response.evidence_items && response.evidence_items.length > 0\<close>,
  giving the image and \<^verbatim>\<open>evidence_items[0]\<close> when it holds.
\<close>

definition evidenceToAdd ::
  "string option \<Rightarrow> AIAnalysisResponse \<Rightarrow> (string \<times> PartialEvidenceItem) option" where
  "evidenceToAdd imageBase64 response =
     (case imageBase64 of
        None \<Rightarrow> None
      | Some b \<Rightarrow>
          if b = [] then None
          else (case r_evidence_items response of
                  None \<Rightarrow> None
                | Some [] \<Rightarrow> None
                | Some (ev # _) \<Rightarrow> Some (b, ev)))"

definition handleCreateIssue :: "Collaborators \<Rightarrow> App \<Rightarrow> App" where
  "handleCreateIssue co app =
     (if newIssueText app = [] \<and> newIssueImage app = None then app
      else
        (case awaitAnalysis co app of
           Inl e \<Rightarrow>
             app\<lparr> alerts := alerts app @ [''Failed to analyze issue. Check console.''],
                  isAnalyzing := False \<rparr>
         | Inr (imageBase64, response) \<Rightarrow>
             (let issue = newIssue co (newIssueText app) response;
                  app1 = dispatch (ADD_ISSUE issue) app;
                  app2 = (case evidenceToAdd imageBase64 response of
                            None \<Rightarrow> app1
                          | Some (b, ev) \<Rightarrow>
                              dispatch (ADD_EVIDENCE (newEvidence co issue b response ev)) app1)
              in app2\<lparr> newIssueText := [], newIssueImage := None, isAnalyzing := False \<rparr>)))"


text \<open>The elements a flow appended to a collection: what follows the old elements.\<close>

definition appended :: "'a list \<Rightarrow> 'a list \<Rightarrow> 'a list" where
  "appended before after = drop (length before) after"

section \<open>The timeline chart (components/TimelineChart.tsx)\<close>

text \<open>
  The chart is drawn by the body of one \<^verbatim>\<open>useEffect\<close>. It reads the issues and the
  communications, the mounted SVG element (its \<^verbatim>\<open>clientWidth\<close>), the clock
  (\<^verbatim>\<open>new Date()\<close>, once for the time extent and once more for each bar), and it calls
  the JavaScript date parser and the d3 library. Pixel values are JavaScript numbers;
  they are modelled as reals, and a value that is \<^verbatim>\<open>NaN\<close> in the source (a position
  computed from an Invalid Date) is \<open>None\<close>.
\<close>

subsection \<open>What the effect takes from the platform\<close>

text \<open>A d3 time scale as the effect uses it: its domain after \<^verbatim>\<open>nice()\<close> and the map \<^verbatim>\<open>x(date)\<close>.\<close>

record TimeScale =
  ts_domain :: "int \<times> int"
  ts_apply :: "int \<Rightarrow> real"

text \<open>
  A d3 band scale as the effect uses it: its domain, the map \<^verbatim>\<open>y(title)\<close> (\<open>None\<close> for
  \<^verbatim>\<open>undefined\<close>) and \<^verbatim>\<open>y.bandwidth()\<close>.
\<close>

record BandScale =
  bs_domain :: "string list"
  bs_apply :: "string \<Rightarrow> real option"
  bs_bandwidth :: real

text \<open>
  The platform is a parameter of the model:
  \<^item> \<open>parseDate\<close> is \<^verbatim>\<open>new Date(d)\<close> for a string: milliseconds since the epoch, \<open>None\<close> for
    an Invalid Date;
  \<^item> \<open>scaleTime e w\<close> is \<^verbatim>\<open>d3.scaleTime().domain(e).range([0, w]).nice()\<close>, \<open>e\<close> being
    what \<^verbatim>\<open>d3.extent\<close> returned;
  \<^item> \<open>scaleBand ts h\<close> is \<^verbatim>\<open>d3.scaleBand().domain(ts).range([0, h]).padding(0.4)\<close>.
\<close>

record Platform =
  parseDate :: "string \<Rightarrow> int option"
  scaleTime :: "(int \<times> int) option \<Rightarrow> real \<Rightarrow> TimeScale"
  scaleBand :: "string list \<Rightarrow> real \<Rightarrow> BandScale"

text \<open>
  Modelled from the spec: \<^verbatim>\<open>d3.extent\<close> is code of the d3 library, which is not part of the
  sources. The spec describes it as computing the minimum and maximum timestamp across
  the dates it is given. The library's loop is followed: a value that is not a valid date
  is passed over, the first valid one starts both ends, each later one moves an end it
  exceeds; with no valid value both ends are \<^verbatim>\<open>undefined\<close> (\<open>None\<close>).
\<close>

fun extentFrom :: "(int \<times> int) option \<Rightarrow> int option list \<Rightarrow> (int \<times> int) option" where
  "extentFrom acc [] = acc"
| "extentFrom acc (None # vs) = extentFrom acc vs"
| "extentFrom None (Some v # vs) = extentFrom (Some (v, v)) vs"
| "extentFrom (Some (lo, hi)) (Some v # vs) =
     extentFrom (Some (if v < lo then v else lo, if hi < v then v else hi)) vs"

definition extent :: "int option list \<Rightarrow> (int \<times> int) option" where
  "extent vs = extentFrom None vs"

subsection \<open>What the effect draws\<close>

record Rect =
  rect_x :: "real option"
  rect_y :: real
  rect_width :: "real option"
  rect_height :: real
  rect_rx :: real
  rect_fill :: string
  rect_opacity :: real

record Circle =
  m_cx :: "real option"
  m_cy :: real
  m_r :: real
  m_fill :: string
  m_stroke :: string
  m_stroke_width :: real
  m_title :: string

text \<open>
  The elements appended to the SVG: the placeholder text (x, y, text), the group
  translated by the margins with its children, the bottom axis (vertical offset, scale
  domain, scale range, tick count), the left axis (its tick labels), a bar, a
  communication dot, and the grid lines (scale domain, scale range, tick count, tick size).
  The constant styling of the text, the axes and the grid (anchor, colours, classes, dash
  pattern) is left out.
\<close>

datatype Node =
    Placeholder real real string
  | Group real real "Node list"
  | AxisBottom real "int \<times> int" "real \<times> real" nat
  | AxisLeft "string list"
  | Bar Rect
  | Dot Circle
  | GridLines "int \<times> int" "real \<times> real" nat real

text \<open>The SVG element: its width on screen, its \<^verbatim>\<open>height\<close> attribute, its children.\<close>

record Svg =
  clientWidth :: int
  svg_height :: "real option"
  svg_children :: "Node list"

subsection \<open>The body of the effect\<close>

definition rowHeight :: real where "rowHeight = 60"
definition minHeight :: real where "minHeight = 300"
definition margin_top :: real where "margin_top = 30"
definition margin_right :: real where "margin_right = 30"
definition margin_bottom :: real where "margin_bottom = 40"
definition margin_left :: real where "margin_left = 180"

definition totalHeight :: "Issue list \<Rightarrow> real" where
  "totalHeight issueList = max minHeight (real (length issueList) * rowHeight)"

text \<open>\<^verbatim>\<open>width\<close>: the drawing width left between the margins.\<close>

definition chartWidth :: "Svg \<Rightarrow> real" where
  "chartWidth svg = real_of_int (clientWidth svg) - margin_left - margin_right"

text \<open>\<^verbatim>\<open>allDates\<close>: the issues' dates, the communications' dates, and the clock's first reading.\<close>

definition allDates ::
  "Platform \<Rightarrow> (nat \<Rightarrow> int) \<Rightarrow> Issue list \<Rightarrow> Communication list \<Rightarrow> int option list" where
  "allDates pf clock issueList comms =
     map (\<lambda>d. parseDate pf (i_first_noticed_at d)) issueList
     @ map (\<lambda>d. parseDate pf (c_date d)) comms
     @ [Some (clock 0)]"

definition xScale ::
  "Platform \<Rightarrow> (nat \<Rightarrow> int) \<Rightarrow> Issue list \<Rightarrow> Communication list \<Rightarrow> real \<Rightarrow> TimeScale" where
  "xScale pf clock issueList comms width =
     scaleTime pf (extent (allDates pf clock issueList comms)) width"

definition yScale :: "Platform \<Rightarrow> Issue list \<Rightarrow> real \<Rightarrow> BandScale" where
  "yScale pf issueList height = scaleBand pf (map i_title issueList) height"

text \<open>The left axis shortens a label of more than 25 characters to 22 and an ellipsis.\<close>

definition truncateLabel :: "string \<Rightarrow> string" where
  "truncateLabel str = (if length str > 25 then take 22 str @ ''...'' else str)"

text \<open>\<^verbatim>\<open>y(title) || 0\<close>.\<close>

fun orZero :: "real option \<Rightarrow> real" where
  "orZero None = 0"
| "orZero (Some v) = v"

definition severityFill :: "string \<Rightarrow> string" where
  "severityFill severity =
     (if severity = ''emergency'' then ''#ef4444''
      else if severity = ''high'' then ''#f97316''
      else if severity = ''medium'' then ''#eab308''
      else ''#3b82f6'')"

text \<open>
  One bar. \<open>reading\<close> is what \<^verbatim>\<open>new Date()\<close> returns inside this bar's width callback; both
  branches of the conditional on the status read the clock. \<^verbatim>\<open>Math.max(5, w)\<close> is
  \<^verbatim>\<open>NaN\<close> when \<open>w\<close> is.
\<close>

definition bar :: "Platform \<Rightarrow> TimeScale \<Rightarrow> BandScale \<Rightarrow> int \<Rightarrow> Issue \<Rightarrow> Rect" where
  "bar pf x y reading d =
     \<lparr> rect_x = map_option (ts_apply x) (parseDate pf (i_first_noticed_at d)),
       rect_y = orZero (bs_apply y (i_title d)),
       rect_width =
         (case parseDate pf (i_first_noticed_at d) of
            None \<Rightarrow> None
          | Some start \<Rightarrow>
              (let endDate = (if i_status d = ''resolved'' then reading else reading);
                   w = ts_apply x endDate - ts_apply x start
               in Some (max 5 w))),
       rect_height = bs_bandwidth y,
       rect_rx = 4,
       rect_fill = severityFill (i_severity d),
       rect_opacity = 7 / 10 \<rparr>"

text \<open>The bars in issue order; the bar at position \<open>k\<close> takes the clock's reading \<open>k + 1\<close>.\<close>

fun drawBars ::
  "Platform \<Rightarrow> (nat \<Rightarrow> int) \<Rightarrow> TimeScale \<Rightarrow> BandScale \<Rightarrow> nat \<Rightarrow> Issue list \<Rightarrow> Rect list" where
  "drawBars pf clock x y k [] = []"
| "drawBars pf clock x y k (d # ds) = bar pf x y (clock (Suc k)) d # drawBars pf clock x y (Suc k) ds"

definition issueMarker ::
  "Platform \<Rightarrow> TimeScale \<Rightarrow> BandScale \<Rightarrow> Communication \<Rightarrow> Issue \<Rightarrow> Circle" where
  "issueMarker pf x y comm issue =
     \<lparr> m_cx = map_option (ts_apply x) (parseDate pf (c_date comm)),
       m_cy = orZero (bs_apply y (i_title issue)) + bs_bandwidth y / 2,
       m_r = 6,
       m_fill = ''#1e293b'',
       m_stroke = ''white'',
       m_stroke_width = 2,
       m_title = c_method comm @ '': '' @ take 30 (c_tenant_message comm) @ ''...'' \<rparr>"

definition generalMarker :: "Platform \<Rightarrow> TimeScale \<Rightarrow> Communication \<Rightarrow> Circle" where
  "generalMarker pf x comm =
     \<lparr> m_cx = map_option (ts_apply x) (parseDate pf (c_date comm)),
       m_cy = - 15,
       m_r = 5,
       m_fill = ''#64748b'',
       m_stroke = ''white'',
       m_stroke_width = 1,
       m_title = ''General '' @ c_method comm @ '': '' @ c_tenant_message comm \<rparr>"

text \<open>
  The inner \<^verbatim>\<open>forEach\<close> over \<^verbatim>\<open>comm.linked_issue_ids\<close>. The state is the flag \<^verbatim>\<open>linked\<close>
  and the circles appended so far; an id that \<^verbatim>\<open>issues.find\<close> does not resolve changes
  neither.
\<close>

fun linkLoop ::
  "Platform \<Rightarrow> TimeScale \<Rightarrow> BandScale \<Rightarrow> Issue list \<Rightarrow> Communication \<Rightarrow> string list
     \<Rightarrow> bool \<times> Circle list \<Rightarrow> bool \<times> Circle list" where
  "linkLoop pf x y issueList comm [] st = st"
| "linkLoop pf x y issueList comm (issueId # ids) (linked, g) =
     (case find (\<lambda>i. i_id i = issueId) issueList of
        Some issue \<Rightarrow>
          linkLoop pf x y issueList comm ids (True, g @ [issueMarker pf x y comm issue])
      | None \<Rightarrow> linkLoop pf x y issueList comm ids (linked, g))"

text \<open>One turn of the outer \<^verbatim>\<open>forEach\<close>: the linked dots, then the top-line dot if not \<^verbatim>\<open>linked\<close>.\<close>

definition commMarkers ::
  "Platform \<Rightarrow> TimeScale \<Rightarrow> BandScale \<Rightarrow> Issue list \<Rightarrow> Circle list \<Rightarrow> Communication
     \<Rightarrow> Circle list" where
  "commMarkers pf x y issueList g comm =
     (case linkLoop pf x y issueList comm (c_linked_issue_ids comm) (False, g) of
        (linked, g') \<Rightarrow> if \<not> linked then g' @ [generalMarker pf x comm] else g')"

definition drawMarkers ::
  "Platform \<Rightarrow> TimeScale \<Rightarrow> BandScale \<Rightarrow> Issue list \<Rightarrow> Communication list \<Rightarrow> Circle list" where
  "drawMarkers pf x y issueList comms = foldl (commMarkers pf x y issueList) [] comms"

text \<open>
  The effect. \<open>None\<close> for the element is \<^verbatim>\<open>svgRef.current\<close> being null: the effect
  returns at once. Otherwise the old children are removed, the height is set, and
  either the placeholder or the chart is appended. \<^verbatim>\<open>clientWidth || 800\<close> takes 800 for 0.
\<close>

definition timelineEffect ::
  "Platform \<Rightarrow> (nat \<Rightarrow> int) \<Rightarrow> Issue list \<Rightarrow> Communication list \<Rightarrow> Svg option \<Rightarrow> Svg option" where
  "timelineEffect pf clock issueList comms svgRef =
     (case svgRef of
        None \<Rightarrow> None
      | Some svg \<Rightarrow>
          (let cleared = svg\<lparr> svg_children := [],
                              svg_height := Some (totalHeight issueList + margin_top + margin_bottom) \<rparr>
           in if length issueList = 0 \<and> length comms = 0 then
                Some (cleared\<lparr> svg_children :=
                  [Placeholder
                     (real_of_int (if clientWidth svg = 0 then 800 else clientWidth svg) / 2)
                     (totalHeight issueList / 2)
                     ''No timeline data yet''] \<rparr>)
              else
                (let width = chartWidth svg;
                     height = totalHeight issueList;
                     x = xScale pf clock issueList comms width;
                     y = yScale pf issueList height
                 in Some (cleared\<lparr> svg_children :=
                      [Group margin_left margin_top
                         ([AxisBottom height (ts_domain x) (0, width) 5,
                           AxisLeft (map truncateLabel (bs_domain y))]
                          @ map Bar (drawBars pf clock x y 0 issueList)
                          @ map Dot (drawMarkers pf x y issueList comms)
                          @ [GridLines (ts_domain x) (0, width) 5 height])] \<rparr>))))"

subsection \<open>Reading a drawn chart\<close>

text \<open>The bars and the dots among the children of a drawn SVG, in drawing order.\<close>

fun barsIn :: "Node list \<Rightarrow> Rect list" where
  "barsIn [] = []"
| "barsIn (Bar b # ns) = b # barsIn ns"
| "barsIn (Group tx ty inner # ns) = barsIn inner @ barsIn ns"
| "barsIn (_ # ns) = barsIn ns"

fun dotsIn :: "Node list \<Rightarrow> Circle list" where
  "dotsIn [] = []"
| "dotsIn (Dot c # ns) = c # dotsIn ns"
| "dotsIn (Group tx ty inner # ns) = dotsIn inner @ dotsIn ns"
| "dotsIn (_ # ns) = dotsIn ns"

definition drawnChildren :: "Svg option \<Rightarrow> Node list" where
  "drawnChildren svgRef = (case svgRef of None \<Rightarrow> [] | Some svg \<Rightarrow> svg_children svg)"

text \<open>
  The issues that the linked ids of a communication resolve to: for each id in order, the
  first issue with that id, if there is one.
\<close>

definition resolvedIssues :: "Issue list \<Rightarrow> string list \<Rightarrow> Issue list" where
  "resolvedIssues issueList ids = List.map_filter (\<lambda>issueId. find (\<lambda>i. i_id i = issueId) issueList) ids"

text \<open>
  The library's documented promise for \<^verbatim>\<open>nice()\<close>: given an extent that runs from a
  minimum to a maximum, the scale's domain after it extends that extent at both ends.
\<close>

definition niceExtends :: "Platform \<Rightarrow> bool" where
  "niceExtends pf =
     (\<forall>lo hi width.
        lo \<le> hi \<longrightarrow>
          fst (ts_domain (scaleTime pf (Some (lo, hi)) width)) \<le> lo
          \<and> hi \<le> snd (ts_domain (scaleTime pf (Some (lo, hi)) width)))"

text \<open>
  \<^verbatim>\<open>a <= b\<close> on two dates as JavaScript compares them: an Invalid Date is \<^verbatim>\<open>NaN\<close>, and
  every comparison with it is false.
\<close>

fun jsLe :: "int option \<Rightarrow> int option \<Rightarrow> bool" where
  "jsLe (Some a) (Some b) = (a \<le> b)"
| "jsLe _ _ = False"

section \<open>Concrete inputs for the Case Store and the handlers\<close>

text \<open>A Case whose landlord already has a name, and a form holding a description only.\<close>

definition bobCase :: TenantCase where
  "bobCase =
     \<lparr> meta =
         [ (''id'', JStr ''''),
           (''property_address'', JStr ''12 Elm St''),
           (''landlord_contact'',
              JObj [(''name'', JStr ''Bob''), (''phone'', JStr ''''),
                    (''email'', JStr ''''), (''other'', JStr '''')]),
           (''lease'', JObj [(''start_date'', JStr ''''), (''end_date'', JStr '''')]) ],
       issues = [],
       evidence = [],
       communications = [] \<rparr>"

definition moldApp :: App where
  "moldApp =
     \<lparr> tenantCase = bobCase, dispatched = [], isAnalyzing = False,
       newIssueText = ''ceiling mold'', newIssueImage = None, alerts = [] \<rparr>"

text \<open>The same form with a photo attached.\<close>

definition photoApp :: App where
  "photoApp = moldApp\<lparr> newIssueImage := Some \<lparr> f_name = ''mold.jpg'', f_type = ''image/jpeg'' \<rparr> \<rparr>"

text \<open>Ten in the morning of 1 March 2024 and the last millisecond of 1999, both in UTC.\<close>

definition marchMorning :: UtcTime where
  "marchMorning =
     \<lparr> utc_year = 2024, utc_month = 3, utc_day = 1, utc_hours = 10, utc_minutes = 0,
       utc_seconds = 0, utc_milliseconds = 0 \<rparr>"


text \<open>A classifier that answers with an empty object.\<close>

definition emptyAnswer :: Collaborators where
  "emptyAnswer =
     \<lparr> fileToBase64 = (\<lambda>file. Inr ''data:image/jpeg;base64,AAAA''),
       analyzeIssueWithEvidence =
         (\<lambda>description imageBase64 mimeType. Inr \<lparr> r_issue = None, r_evidence_items = None \<rparr>),
       uuidv4 = (\<lambda>k. if k = 0 then ''uuid-a'' else ''uuid-b''),
       newDate = (\<lambda>k. marchMorning) \<rparr>"


text \<open>A classifier whose call is rejected.\<close>

definition rejecting :: Collaborators where
  "rejecting =
     emptyAnswer\<lparr> analyzeIssueWithEvidence := (\<lambda>description imageBase64 mimeType. Inl AnalysisError) \<rparr>"

text \<open>A classifier that answers with one captioned evidence item and no issue fields.\<close>

definition captioning :: Collaborators where
  "captioning =
     emptyAnswer\<lparr> analyzeIssueWithEvidence :=
       (\<lambda>description imageBase64 mimeType.
          Inr \<lparr> r_issue = None,
                r_evidence_items = Some [\<lparr> pe_ai_caption = Some ''Mold on the ceiling'' \<rparr>] \<rparr>) \<rparr>"

text \<open>A sequence of store calls: two issues, one evidence item, one communication.\<close>

definition leak :: Issue where
  "leak =
     \<lparr> i_id = ''i1'', i_title = ''Leak'', i_category = ''Plumbing'', i_room = ''Kitchen'',
       i_severity = ''high'', i_status = ''ongoing'', i_first_noticed_at = ''2024-01-01'',
       i_description = ''Leak under the sink'', i_habitability_categories = [] \<rparr>"

definition mold :: Issue where
  "mold =
     \<lparr> i_id = ''i2'', i_title = ''Mold'', i_category = ''Health'', i_room = ''Bathroom'',
       i_severity = ''medium'', i_status = ''resolved'', i_first_noticed_at = ''2024-02-01'',
       i_description = ''Mold on the ceiling'', i_habitability_categories = [] \<rparr>"

definition leakPhoto :: EvidenceItem where
  "leakPhoto =
     \<lparr> e_id = ''e1'', e_issue_id = ''i1'', e_file_reference = ''data:,'',
       e_captured_at = ''2024-01-02T00:00:00.000Z'', e_uploaded_at = ''2024-01-02T00:00:00.000Z'',
       e_ai_caption = ''Water under the sink'', e_user_caption = [] \<rparr>"

definition leakEmail :: Communication where
  "leakEmail =
     \<lparr> c_id = ''c1'', c_date = ''2024-02-01'', c_method = ''email'',
       c_tenant_message = ''The sink is leaking'', c_landlord_response = [],
       c_linked_issue_ids = [''i1''], c_promises = [] \<rparr>"

section \<open>A reference platform and concrete charts\<close>

text \<open>
  To evaluate the effect on concrete inputs the platform parameter needs a value. The
  theorems below hold for every platform; this one is used only in examples.
\<close>

text \<open>
  The date parser on the three date strings the examples use: midnight UTC of
  2024-01-01, 2024-02-01 and 2024-03-01 in milliseconds since the epoch; any other string
  is taken as an Invalid Date.
\<close>

definition refParseDate :: "string \<Rightarrow> int option" where
  "refParseDate =
     map_of [(''2024-01-01'', 1704067200000),
             (''2024-02-01'', 1706745600000),
             (''2024-03-01'', 1709251200000)]"

definition msPerDay :: int where "msPerDay = 86400000"

text \<open>
  Modelled from the spec: the time scale and its \<^verbatim>\<open>nice()\<close> are code of the d3 library,
  which is not part of the sources. The spec asks that the domain be widened to friendly
  values and contain every input timestamp, and leaves the granularity open; here the
  ends are rounded outwards to whole days. The scale maps the domain linearly onto
  \<open>[0, width]\<close>, and a domain of one instant to the middle of the range.
\<close>

definition niceDays :: "int \<times> int \<Rightarrow> int \<times> int" where
  "niceDays e = (fst e - fst e mod msPerDay, snd e + (- snd e) mod msPerDay)"

definition refScaleTime :: "(int \<times> int) option \<Rightarrow> real \<Rightarrow> TimeScale" where
  "refScaleTime e width =
     (case e of
        None \<Rightarrow> \<lparr> ts_domain = (0, 0), ts_apply = (\<lambda>t. width / 2) \<rparr>
      | Some lohi \<Rightarrow>
          (let d0 = fst (niceDays lohi); d1 = snd (niceDays lohi)
           in \<lparr> ts_domain = (d0, d1),
                ts_apply = (\<lambda>t. if d1 = d0 then width / 2
                                 else width * (real_of_int (t - d0) / real_of_int (d1 - d0))) \<rparr>))"

text \<open>The titles of a band scale's domain: each once, at its first place.\<close>

fun firstOccurrences :: "string list \<Rightarrow> string list" where
  "firstOccurrences [] = []"
| "firstOccurrences (t # ts) = t # firstOccurrences (filter (\<lambda>u. u \<noteq> t) ts)"

fun indexOf :: "string \<Rightarrow> string list \<Rightarrow> nat option" where
  "indexOf t [] = None"
| "indexOf t (u # us) = (if t = u then Some 0 else map_option Suc (indexOf t us))"

text \<open>
  Modelled from the spec: the band scale is code of the d3 library, which is not part of
  the sources. The spec asks for one row per distinct Issue, in the order supplied. With
  padding 0.4 (inner and outer) and \<open>n\<close> rows over \<open>[0, height]\<close>, the library's step is
  \<open>height / max 1 (n + 0.4)\<close>, the band is 0.6 of a step, and the rows are centred.
\<close>

definition refScaleBand :: "string list \<Rightarrow> real \<Rightarrow> BandScale" where
  "refScaleBand titles height =
     (let dom = firstOccurrences titles;
          n = real (length dom);
          step = height / max 1 (n - 4 / 10 + (4 / 10) * 2);
          start = (height - step * (n - 4 / 10)) * (1 / 2)
      in \<lparr> bs_domain = dom,
           bs_apply = (\<lambda>t. map_option (\<lambda>i. start + step * real i) (indexOf t dom)),
           bs_bandwidth = step * (1 - 4 / 10) \<rparr>)"

definition refPlatform :: Platform where
  "refPlatform =
     \<lparr> parseDate = refParseDate, scaleTime = refScaleTime, scaleBand = refScaleBand \<rparr>"

text \<open>A clock that stands at midnight UTC of 2024-03-01 for every reading.\<close>

definition marchFirst :: "nat \<Rightarrow> int" where
  "marchFirst k = 1709251200000"

text \<open>A clock that stands at ten in the morning UTC of 2024-03-01.\<close>

definition tenOClock :: "nat \<Rightarrow> int" where
  "tenOClock k = 1709287200000"

text \<open>A clock that reads midnight UTC of 2024-03-01 three times and an hour later from then on.\<close>

definition movingClock :: "nat \<Rightarrow> int" where
  "movingClock k = (if k \<le> 2 then 1709251200000 else 1709254800000)"

text \<open>Two mounted SVG elements of different widths, one of them with an earlier drawing.\<close>

definition wideSvg :: Svg where
  "wideSvg = \<lparr> clientWidth = 1000, svg_height = None, svg_children = [] \<rparr>"

definition wideSvgDrawn :: Svg where
  "wideSvgDrawn =
     \<lparr> clientWidth = 1000, svg_height = Some 370,
       svg_children = [Placeholder 500 150 ''No timeline data yet''] \<rparr>"

definition narrowSvg :: Svg where
  "narrowSvg = \<lparr> clientWidth = 600, svg_height = None, svg_children = [] \<rparr>"

text \<open>An issue first noticed on the day the clock shows.\<close>

definition sameDay :: Issue where
  "sameDay = leak\<lparr> i_id := ''i3'', i_title := ''No heat'', i_first_noticed_at := ''2024-03-01'' \<rparr>"

text \<open>An issue whose date the classifier gave in words.\<close>

definition vague :: Issue where
  "vague = leak\<lparr> i_id := ''i4'', i_title := ''Draught'', i_first_noticed_at := ''last week'' \<rparr>"

text \<open>Communications: linked to two issues, linked to none, linked only to an unknown id.\<close>

definition bothEmail :: Communication where
  "bothEmail = leakEmail\<lparr> c_id := ''c2'', c_linked_issue_ids := [''i1'', ''i2''] \<rparr>"

definition generalCall :: Communication where
  "generalCall = leakEmail\<lparr> c_id := ''c3'', c_method := ''phone'', c_linked_issue_ids := [] \<rparr>"

definition ghostEmail :: Communication where
  "ghostEmail = leakEmail\<lparr> c_id := ''c4'', c_linked_issue_ids := [''ghost''] \<rparr>"

section \<open>Properties of the Case Store\<close>

text \<open>
  Claim C9. For every Case, \<^verbatim>\<open>reset()\<close> (the \<^verbatim>\<open>RESET_CASE\<close> action) yields a Case whose
  issues, evidence and communications are empty and whose metadata is the fixed empty
  metadata: empty id, empty address, four empty contact fields, two empty lease dates.
\<close>

theorem reset_yields_empty_case:
  "issues (caseReducer state RESET_CASE) = []
   \<and> evidence (caseReducer state RESET_CASE) = []
   \<and> communications (caseReducer state RESET_CASE) = []
   \<and> meta (caseReducer state RESET_CASE) = meta EMPTY_CASE
   \<and> getProp (meta (caseReducer state RESET_CASE)) ''id'' = Some (JStr '''')
   \<and> getProp (meta (caseReducer state RESET_CASE)) ''property_address'' = Some (JStr '''')
   \<and> getProp (meta (caseReducer state RESET_CASE)) ''landlord_contact''
       = Some (JObj [(''name'', JStr ''''), (''phone'', JStr ''''),
                     (''email'', JStr ''''), (''other'', JStr '''')])
   \<and> getProp (meta (caseReducer state RESET_CASE)) ''lease''
       = Some (JObj [(''start_date'', JStr ''''), (''end_date'', JStr '''')])"
  by (simp add: EMPTY_CASE_def getProp_def)

subsection \<open>Property reads after writes\<close>

lemma getProp_setProp:
  "getProp (setProp k v obj) k' = (if k' = k then Some v else getProp obj k')"
  by (induction obj) (auto simp: getProp_def)

lemma splitOn_no_sep: "c \<notin> set s \<Longrightarrow> splitOn c s = [s]"
  by (induction s) auto

lemma splitOn_two_parts: "splitOn c s = p # q # rest \<Longrightarrow> c \<in> set s"
  using splitOn_no_sep [of c s] by auto

subsection \<open>Sequences of append calls\<close>

lemma dispatchAll_adds_issues:
  "issues (dispatchAll state (map addAction calls)) = issues state @ issuesOf calls"
  unfolding dispatchAll_def
  by (induction calls arbitrary: state rule: issuesOf.induct) simp_all

lemma dispatchAll_adds_evidence:
  "evidence (dispatchAll state (map addAction calls)) = evidence state @ evidenceOf calls"
  unfolding dispatchAll_def
  by (induction calls arbitrary: state rule: evidenceOf.induct) simp_all

lemma dispatchAll_adds_communications:
  "communications (dispatchAll state (map addAction calls))
     = communications state @ communicationsOf calls"
  unfolding dispatchAll_def
  by (induction calls arbitrary: state rule: communicationsOf.induct) simp_all

lemma dispatchAll_adds_meta:
  "meta (dispatchAll state (map addAction calls)) = meta state"
  unfolding dispatchAll_def
proof (induction calls arbitrary: state)
  case Nil
  show ?case by simp
next
  case (Cons c cs)
  show ?case by (cases c) (simp_all add: Cons.IH)
qed

lemma count_targets:
  "length (issuesOf calls) + length (evidenceOf calls) + length (communicationsOf calls)
     = length calls"
proof (induction calls)
  case Nil
  show ?case by simp
next
  case (Cons c cs)
  then show ?case by (cases c) simp_all
qed

text \<open>
  Claim C8. For every sequence of \<^verbatim>\<open>addIssue\<close>, \<^verbatim>\<open>addEvidence\<close> and \<^verbatim>\<open>addCommunication\<close>
  calls applied to any starting Case, each collection ends as its starting value followed
  by the payloads of the calls that target it, in call order; so its length grows by the
  number of those calls, and the metadata and the other collections are as no call had
  touched them.
\<close>

theorem add_calls_append_in_order:
  "issues (dispatchAll state (map addAction calls)) = issues state @ issuesOf calls
   \<and> evidence (dispatchAll state (map addAction calls)) = evidence state @ evidenceOf calls
   \<and> communications (dispatchAll state (map addAction calls))
       = communications state @ communicationsOf calls
   \<and> meta (dispatchAll state (map addAction calls)) = meta state
   \<and> length (issues (dispatchAll state (map addAction calls)))
       = length (issues state) + length (issuesOf calls)
   \<and> length (evidence (dispatchAll state (map addAction calls)))
       = length (evidence state) + length (evidenceOf calls)
   \<and> length (communications (dispatchAll state (map addAction calls)))
       = length (communications state) + length (communicationsOf calls)
   \<and> length (issuesOf calls) + length (evidenceOf calls) + length (communicationsOf calls)
       = length calls"
  by (simp add: dispatchAll_adds_issues dispatchAll_adds_evidence
        dispatchAll_adds_communications dispatchAll_adds_meta count_targets)

text \<open>Two issues, a photo and an email, added to a Case that has none.\<close>

theorem add_calls_append_in_order_witness:
  "issues (dispatchAll bobCase
      (map addAction [AddIssue leak, AddEvidence leakPhoto, AddIssue mold, AddCommunication leakEmail]))
     = [leak, mold]
   \<and> evidence (dispatchAll bobCase
      (map addAction [AddIssue leak, AddEvidence leakPhoto, AddIssue mold, AddCommunication leakEmail]))
     = [leakPhoto]
   \<and> communications (dispatchAll bobCase
      (map addAction [AddIssue leak, AddEvidence leakPhoto, AddIssue mold, AddCommunication leakEmail]))
     = [leakEmail]
   \<and> meta (dispatchAll bobCase
      (map addAction [AddIssue leak, AddEvidence leakPhoto, AddIssue mold, AddCommunication leakEmail]))
     = meta bobCase"
  using add_calls_append_in_order
    [of bobCase "[AddIssue leak, AddEvidence leakPhoto, AddIssue mold, AddCommunication leakEmail]"]
  by (simp add: bobCase_def)

subsection \<open>Nested metadata updates\<close>

text \<open>
  Claim C7. For every Case and every update of one nested metadata field through
  \<^verbatim>\<open>handleUpdateMeta('parent.child', value)\<close>, where \<^verbatim>\<open>meta[parent]\<close> is a sub-object: the
  sub-object afterwards holds the new value under \<open>child\<close> and every sibling field as it
  was, every other metadata field is as it was, and the issues, evidence and
  communications are unchanged.
\<close>

theorem updateMeta_nested_merge:
  assumes "splitOn (CHR ''.'') field = parent # child # rest"
    and "getProp (meta (tenantCase app)) parent = Some (JObj sub)"
  shows
    "getProp (meta (tenantCase (handleUpdateMeta field val app))) parent
       = Some (JObj (setProp child val sub))
     \<and> getProp (setProp child val sub) child = Some val
     \<and> (\<forall>sibling. sibling \<noteq> child \<longrightarrow>
            getProp (setProp child val sub) sibling = getProp sub sibling)
     \<and> (\<forall>other. other \<noteq> parent \<longrightarrow>
            getProp (meta (tenantCase (handleUpdateMeta field val app))) other
              = getProp (meta (tenantCase app)) other)
     \<and> issues (tenantCase (handleUpdateMeta field val app)) = issues (tenantCase app)
     \<and> evidence (tenantCase (handleUpdateMeta field val app)) = evidence (tenantCase app)
     \<and> communications (tenantCase (handleUpdateMeta field val app))
         = communications (tenantCase app)"
proof -
  have dot: "CHR ''.'' \<in> set field"
    using assms(1) by (rule splitOn_two_parts)
  have keys: "keyAt (splitOn (CHR ''.'') field) 0 = parent"
    "keyAt (splitOn (CHR ''.'') field) 1 = child"
    using assms(1) by (simp_all add: keyAt_def)
  have step: "tenantCase (handleUpdateMeta field val app)
      = (tenantCase app)\<lparr> meta := setProp parent (JObj (setProp child val sub))
                                     (meta (tenantCase app)) \<rparr>"
    using dot keys assms(2) by (simp add: handleUpdateMeta_def dispatch_def Let_def)
  show ?thesis
    unfolding step by (simp add: getProp_setProp)
qed

theorem updateMeta_nested_merge_witness:
  "splitOn (CHR ''.'') ''landlord_contact.phone'' = [''landlord_contact'', ''phone'']
   \<and> getProp (meta (tenantCase moldApp)) ''landlord_contact''
       = Some (JObj [(''name'', JStr ''Bob''), (''phone'', JStr ''''),
                     (''email'', JStr ''''), (''other'', JStr '''')])
   \<and> getProp (meta (tenantCase (handleUpdateMeta ''landlord_contact.phone'' (JStr ''555'') moldApp)))
         ''landlord_contact''
       = Some (JObj [(''name'', JStr ''Bob''), (''phone'', JStr ''555''),
                     (''email'', JStr ''''), (''other'', JStr '''')])
   \<and> getProp (meta (tenantCase (handleUpdateMeta ''landlord_contact.phone'' (JStr ''555'') moldApp)))
         ''property_address''
       = Some (JStr ''12 Elm St'')"
proof -
  have parts: "splitOn (CHR ''.'') ''landlord_contact.phone'' = ''landlord_contact'' # ''phone'' # []"
    by simp
  have sub: "getProp (meta (tenantCase moldApp)) ''landlord_contact''
       = Some (JObj [(''name'', JStr ''Bob''), (''phone'', JStr ''''),
                     (''email'', JStr ''''), (''other'', JStr '''')])"
    by (simp add: moldApp_def bobCase_def getProp_def)
  have addr: "getProp (meta (tenantCase moldApp)) ''property_address'' = Some (JStr ''12 Elm St'')"
    by (simp add: moldApp_def bobCase_def getProp_def)
  from updateMeta_nested_merge [OF parts sub, of "JStr ''555''"] parts sub addr
  show ?thesis by simp
qed

text \<open>
  The merge of the sub-object is the handler's: it spreads the current sub-object into the
  payload. The reducer spreads one level only, so a payload that carries a partial
  sub-object replaces the sub-object.
\<close>

lemma reducer_spreads_one_level:
  "getProp (meta (caseReducer bobCase
       (UPDATE_META [(''landlord_contact'', JObj [(''phone'', JStr ''555'')])])))
     ''landlord_contact''
   = Some (JObj [(''phone'', JStr ''555'')])"
  by (simp add: bobCase_def getProp_def)

subsection \<open>The create-issue flow\<close>



















text \<open>
  Claim C6. For every Case, if the classifier call (or the file read awaited before it)
  raises an error during the create-issue flow, the Case is exactly as before: no Issue
  and no EvidenceItem is appended and no field of the Case changes.
\<close>

theorem createIssue_error_leaves_case:
  assumes "awaitAnalysis co app = Inl e"
  shows "tenantCase (handleCreateIssue co app) = tenantCase app"
  using assms by (simp add: handleCreateIssue_def)

theorem createIssue_error_leaves_case_witness:
  "awaitAnalysis rejecting moldApp = Inl AnalysisError
   \<and> tenantCase (handleCreateIssue rejecting moldApp) = bobCase
   \<and> tenantCase moldApp = bobCase"
proof -
  have raised: "awaitAnalysis rejecting moldApp = Inl AnalysisError"
    by (simp add: awaitAnalysis_def moldApp_def rejecting_def emptyAnswer_def)
  from createIssue_error_leaves_case [OF raised] raised
  show ?thesis by (simp add: moldApp_def)
qed

lemma awaitAnalysis_image:
  "awaitAnalysis co app = Inr (Some b, response) \<Longrightarrow> newIssueImage app \<noteq> None"
  by (auto simp: awaitAnalysis_def split: option.splits sum.splits)

lemma evidenceToAdd_Some:
  "evidenceToAdd imageBase64 response = Some (b, item) \<Longrightarrow>
     imageBase64 = Some b \<and> b \<noteq> [] \<and> (\<exists>items. r_evidence_items response = Some (item # items))"
  by (auto simp: evidenceToAdd_def split: option.splits if_splits list.splits)

text \<open>The three ways the flow can end, each with the actions it dispatched, in order.\<close>

lemma createIssue_cases:
  "(tenantCase (handleCreateIssue co app) = tenantCase app
      \<and> dispatched (handleCreateIssue co app) = dispatched app)
   \<or> (\<exists>imageBase64 response.
         awaitAnalysis co app = Inr (imageBase64, response)
         \<and> evidenceToAdd imageBase64 response = None
         \<and> dispatched (handleCreateIssue co app)
             = dispatched app @ [ADD_ISSUE (newIssue co (newIssueText app) response)]
         \<and> tenantCase (handleCreateIssue co app)
             = caseReducer (tenantCase app) (ADD_ISSUE (newIssue co (newIssueText app) response)))
   \<or> (\<exists>imageBase64 response b item.
         awaitAnalysis co app = Inr (imageBase64, response)
         \<and> evidenceToAdd imageBase64 response = Some (b, item)
         \<and> dispatched (handleCreateIssue co app)
             = dispatched app @
               [ADD_ISSUE (newIssue co (newIssueText app) response),
                ADD_EVIDENCE
                  (newEvidence co (newIssue co (newIssueText app) response) b response item)]
         \<and> tenantCase (handleCreateIssue co app)
             = caseReducer
                 (caseReducer (tenantCase app) (ADD_ISSUE (newIssue co (newIssueText app) response)))
                 (ADD_EVIDENCE
                    (newEvidence co (newIssue co (newIssueText app) response) b response item)))"
  by (auto simp: handleCreateIssue_def dispatch_def Let_def split: sum.splits option.splits)

text \<open>
  Claim C10. The flow dispatches nothing, or the new Issue alone, or the new Issue and
  then one EvidenceItem. The EvidenceItem has \<^verbatim>\<open>issue_id\<close> equal to the id of that Issue
  and is dispatched after it: when its action arrives, the Issue it references is already
  in the Case. It is dispatched only when an image was supplied and the classifier
  returned at least one evidence item. Every EvidenceItem the flow appends to the Case is
  that one, and the evidence already in the Case stays in front.
\<close>

theorem createIssue_evidence_references_issue:
  "dispatched (handleCreateIssue co app)
     = dispatched app @ appended (dispatched app) (dispatched (handleCreateIssue co app))
   \<and> tenantCase (handleCreateIssue co app)
       = dispatchAll (tenantCase app)
           (appended (dispatched app) (dispatched (handleCreateIssue co app)))
   \<and> evidenceFindsIssue (tenantCase app)
       (appended (dispatched app) (dispatched (handleCreateIssue co app)))
   \<and> (appended (dispatched app) (dispatched (handleCreateIssue co app)) = []
       \<or> (\<exists>issue. appended (dispatched app) (dispatched (handleCreateIssue co app))
                     = [ADD_ISSUE issue])
       \<or> (\<exists>issue ev b response item items.
             appended (dispatched app) (dispatched (handleCreateIssue co app))
               = [ADD_ISSUE issue, ADD_EVIDENCE ev]
             \<and> e_issue_id ev = i_id issue
             \<and> newIssueImage app \<noteq> None
             \<and> awaitAnalysis co app = Inr (Some b, response)
             \<and> r_evidence_items response = Some (item # items)))
   \<and> take (length (evidence (tenantCase app))) (evidence (tenantCase (handleCreateIssue co app)))
       = evidence (tenantCase app)
   \<and> (\<forall>ev \<in> set (appended (evidence (tenantCase app))
                     (evidence (tenantCase (handleCreateIssue co app)))).
        ADD_EVIDENCE ev \<in> set (appended (dispatched app) (dispatched (handleCreateIssue co app)))
        \<and> e_issue_id ev \<in> i_id ` set (issues (tenantCase (handleCreateIssue co app))))"
proof -
  consider
    (same) "tenantCase (handleCreateIssue co app) = tenantCase app"
      "dispatched (handleCreateIssue co app) = dispatched app"
  | (issue) response where
      "dispatched (handleCreateIssue co app)
         = dispatched app @ [ADD_ISSUE (newIssue co (newIssueText app) response)]"
      "tenantCase (handleCreateIssue co app)
         = caseReducer (tenantCase app) (ADD_ISSUE (newIssue co (newIssueText app) response))"
  | (both) imageBase64 response b item where
      "awaitAnalysis co app = Inr (imageBase64, response)"
      "evidenceToAdd imageBase64 response = Some (b, item)"
      "dispatched (handleCreateIssue co app)
         = dispatched app @
           [ADD_ISSUE (newIssue co (newIssueText app) response),
            ADD_EVIDENCE
              (newEvidence co (newIssue co (newIssueText app) response) b response item)]"
      "tenantCase (handleCreateIssue co app)
         = caseReducer
             (caseReducer (tenantCase app) (ADD_ISSUE (newIssue co (newIssueText app) response)))
             (ADD_EVIDENCE
                (newEvidence co (newIssue co (newIssueText app) response) b response item))"
    using createIssue_cases [of co app] by blast
  then show ?thesis
  proof cases
    case same
    then show ?thesis by (simp add: appended_def dispatchAll_def)
  next
    case issue
    then show ?thesis by (simp add: appended_def dispatchAll_def)
  next
    case both
    let ?issue = "newIssue co (newIssueText app) response"
    let ?ev = "newEvidence co ?issue b response item"
    from evidenceToAdd_Some [OF both(2)] obtain items where
      img: "imageBase64 = Some b" and items: "r_evidence_items response = Some (item # items)"
      by blast
    have image: "newIssueImage app \<noteq> None"
      using both(1) img by (auto dest: awaitAnalysis_image)
    have new: "appended (dispatched app) (dispatched (handleCreateIssue co app))
        = [ADD_ISSUE ?issue, ADD_EVIDENCE ?ev]"
      by (simp add: both(3) appended_def)
    have link: "e_issue_id ?ev = i_id ?issue"
      by (simp add: newEvidence_def)
    have shape: "\<exists>issue ev b response item items.
             [ADD_ISSUE ?issue, ADD_EVIDENCE ?ev] = [ADD_ISSUE issue, ADD_EVIDENCE ev]
             \<and> e_issue_id ev = i_id issue
             \<and> newIssueImage app \<noteq> None
             \<and> awaitAnalysis co app = Inr (Some b, response)
             \<and> r_evidence_items response = Some (item # items)"
      using link image both(1) img items by blast
    have added: "appended (evidence (tenantCase app))
        (evidence (tenantCase (handleCreateIssue co app))) = [?ev]"
      by (simp add: both(4) appended_def)
    have rest: "dispatched (handleCreateIssue co app)
          = dispatched app @ [ADD_ISSUE ?issue, ADD_EVIDENCE ?ev]"
      "tenantCase (handleCreateIssue co app)
          = dispatchAll (tenantCase app) [ADD_ISSUE ?issue, ADD_EVIDENCE ?ev]"
      "evidenceFindsIssue (tenantCase app) [ADD_ISSUE ?issue, ADD_EVIDENCE ?ev]"
      "take (length (evidence (tenantCase app))) (evidence (tenantCase (handleCreateIssue co app)))
         = evidence (tenantCase app)"
      "e_issue_id ?ev \<in> i_id ` set (issues (tenantCase (handleCreateIssue co app)))"
      by (simp_all add: both(3,4) dispatchAll_def link)
    show ?thesis
      unfolding new added using shape rest by simp
  qed
qed

text \<open>
  A description with a photo, and a classifier that returns one caption. The check on the
  order is a real one: the same two actions with the evidence first do not pass it,
  though they end in the same Case.
\<close>

lemma marchMorning_stamp: "toISOString marchMorning = ''2024-03-01T10:00:00.000Z''"
  by code_simp

theorem createIssue_evidence_references_issue_witness:
  "appended (dispatched photoApp) (dispatched (handleCreateIssue captioning photoApp))
     = [ADD_ISSUE
          \<lparr> i_id = ''uuid-a'', i_title = ''New Issue'', i_category = ''General'',
            i_room = ''Unknown'', i_severity = ''medium'', i_status = ''ongoing'',
            i_first_noticed_at = ''2024-03-01'', i_description = ''ceiling mold'',
            i_habitability_categories = [] \<rparr>,
        ADD_EVIDENCE
          \<lparr> e_id = ''uuid-b'', e_issue_id = ''uuid-a'',
            e_file_reference = ''data:image/jpeg;base64,AAAA'',
            e_captured_at = ''2024-03-01T10:00:00.000Z'',
            e_uploaded_at = ''2024-03-01T10:00:00.000Z'',
            e_ai_caption = ''Mold on the ceiling'', e_user_caption = [] \<rparr>]
   \<and> map i_id (issues (tenantCase (handleCreateIssue captioning photoApp))) = [''uuid-a'']
   \<and> map e_issue_id (evidence (tenantCase (handleCreateIssue captioning photoApp))) = [''uuid-a'']
   \<and> newIssueImage photoApp \<noteq> None
   \<and> evidenceFindsIssue bobCase [ADD_ISSUE leak, ADD_EVIDENCE leakPhoto]
   \<and> \<not> evidenceFindsIssue bobCase [ADD_EVIDENCE leakPhoto, ADD_ISSUE leak]
   \<and> dispatchAll bobCase [ADD_EVIDENCE leakPhoto, ADD_ISSUE leak]
       = dispatchAll bobCase [ADD_ISSUE leak, ADD_EVIDENCE leakPhoto]"
  using createIssue_evidence_references_issue [of captioning photoApp]
  by (simp add: appended_def handleCreateIssue_def awaitAnalysis_def evidenceToAdd_def
        newEvidence_def newIssue_def dispatch_def issueField_def clockReadsForIssue_def
        photoApp_def moldApp_def bobCase_def captioning_def emptyAnswer_def
        marchMorning_stamp datePart_def dispatchAll_def Let_def leak_def leakPhoto_def)

section \<open>Properties of the timeline chart\<close>

subsection \<open>Communication dots\<close>

text \<open>The inner loop appends one dot per id that resolves and raises the flag if any did.\<close>

lemma linkLoop_result:
  "linkLoop pf x y issueList comm ids (linked, g)
     = (linked \<or> resolvedIssues issueList ids \<noteq> [],
        g @ map (issueMarker pf x y comm) (resolvedIssues issueList ids))"
proof (induction ids arbitrary: linked g)
  case Nil
  show ?case by (simp add: resolvedIssues_def List.map_filter_simps)
next
  case (Cons issueId ids)
  show ?case
  proof (cases "find (\<lambda>i. i_id i = issueId) issueList")
    case None
    then show ?thesis
      using Cons.IH [of linked g] by (simp add: resolvedIssues_def List.map_filter_simps)
  next
    case (Some issue)
    then show ?thesis
      using Cons.IH [of True "g @ [issueMarker pf x y comm issue]"]
      by (simp add: resolvedIssues_def List.map_filter_simps)
  qed
qed

lemma commMarkers_result:
  "commMarkers pf x y issueList g comm
     = g @ map (issueMarker pf x y comm) (resolvedIssues issueList (c_linked_issue_ids comm))
         @ (if resolvedIssues issueList (c_linked_issue_ids comm) = []
            then [generalMarker pf x comm] else [])"
  by (simp add: commMarkers_def linkLoop_result)

lemma foldl_commMarkers:
  "foldl (commMarkers pf x y issueList) g comms
     = g @ concat (map (commMarkers pf x y issueList []) comms)"
proof (induction comms arbitrary: g)
  case Nil
  show ?case by simp
next
  case (Cons c cs)
  have "commMarkers pf x y issueList g c = g @ commMarkers pf x y issueList [] c"
    by (simp add: commMarkers_result)
  then show ?case by (simp add: Cons.IH)
qed

lemma find_id_resolves:
  "(find (\<lambda>i. i_id i = issueId) issueList = None) = (issueId \<notin> i_id ` set issueList)"
  by (auto simp: find_None_iff)

lemma find_id_Some:
  "find (\<lambda>i. i_id i = issueId) issueList = Some issue \<Longrightarrow> i_id issue = issueId \<and> issue \<in> set issueList"
  by (auto simp: find_Some_iff)

lemma resolvedIssues_ids:
  "map i_id (resolvedIssues issueList ids) = filter (\<lambda>issueId. issueId \<in> i_id ` set issueList) ids"
proof (induction ids)
  case Nil
  show ?case by (simp add: resolvedIssues_def List.map_filter_simps)
next
  case (Cons issueId ids)
  show ?case
  proof (cases "find (\<lambda>i. i_id i = issueId) issueList")
    case None
    then show ?thesis
      using Cons.IH find_id_resolves [of issueId issueList]
      by (simp add: resolvedIssues_def List.map_filter_simps)
  next
    case (Some issue)
    then show ?thesis
      using Cons.IH find_id_resolves [of issueId issueList] find_id_Some [OF Some]
      by (simp add: resolvedIssues_def List.map_filter_simps)
  qed
qed

lemma resolvedIssues_subset: "set (resolvedIssues issueList ids) \<subseteq> set issueList"
  by (auto simp: resolvedIssues_def List.map_filter_def dest: find_id_Some)

subsection \<open>The bars and dots of the drawn chart\<close>

lemma barsIn_map_Bar: "barsIn (map Bar bs @ ns) = bs @ barsIn ns"
  by (induction bs) simp_all

lemma barsIn_map_Dot: "barsIn (map Dot cs @ ns) = barsIn ns"
  by (induction cs) simp_all

lemma dotsIn_map_Bar: "dotsIn (map Bar bs @ ns) = dotsIn ns"
  by (induction bs) simp_all

lemma dotsIn_map_Dot: "dotsIn (map Dot cs @ ns) = cs @ dotsIn ns"
  by (induction cs) simp_all

lemma dots_of_effect:
  "dotsIn (drawnChildren (timelineEffect pf clock issueList comms (Some svg)))
     = drawMarkers pf (xScale pf clock issueList comms (chartWidth svg))
         (yScale pf issueList (totalHeight issueList)) issueList comms"
  by (simp add: timelineEffect_def drawnChildren_def Let_def dotsIn_map_Bar dotsIn_map_Dot
        drawMarkers_def)

lemma bars_of_effect:
  "barsIn (drawnChildren (timelineEffect pf clock issueList comms (Some svg)))
     = drawBars pf clock (xScale pf clock issueList comms (chartWidth svg))
         (yScale pf issueList (totalHeight issueList)) 0 issueList"
  by (simp add: timelineEffect_def drawnChildren_def Let_def barsIn_map_Bar barsIn_map_Dot)

text \<open>
  Claim C1, as the code has it. The dots of the chart are the dots of each Communication,
  in order. A Communication gets one dot for each of its linked ids that resolves to an
  Issue (the ids that do not resolve are passed over), at the Communication's date and
  at the middle of that Issue's bar; and it gets one dot on the general lane, 15 above
  the top of the chart, exactly when none of its linked ids resolves: when it has no
  linked id, and also when it has some and all are unknown.
\<close>

theorem markers_per_communication:
  "dotsIn (drawnChildren (timelineEffect pf clock issueList comms (Some svg)))
     = concat (map (commMarkers pf (xScale pf clock issueList comms (chartWidth svg))
                      (yScale pf issueList (totalHeight issueList)) issueList []) comms)
   \<and> commMarkers pf x y issueList [] comm
       = map (issueMarker pf x y comm) (resolvedIssues issueList (c_linked_issue_ids comm))
         @ (if resolvedIssues issueList (c_linked_issue_ids comm) = []
            then [generalMarker pf x comm] else [])
   \<and> map i_id (resolvedIssues issueList (c_linked_issue_ids comm))
       = filter (\<lambda>issueId. issueId \<in> i_id ` set issueList) (c_linked_issue_ids comm)
   \<and> set (resolvedIssues issueList (c_linked_issue_ids comm)) \<subseteq> set issueList
   \<and> m_cx (issueMarker pf x y comm issue) = map_option (ts_apply x) (parseDate pf (c_date comm))
   \<and> m_cy (issueMarker pf x y comm issue)
       = rect_y (bar pf x y reading issue) + rect_height (bar pf x y reading issue) / 2
   \<and> m_cx (generalMarker pf x comm) = map_option (ts_apply x) (parseDate pf (c_date comm))
   \<and> m_cy (generalMarker pf x comm) = - 15"
  by (simp add: dots_of_effect drawMarkers_def foldl_commMarkers commMarkers_result
        resolvedIssues_ids resolvedIssues_subset issueMarker_def generalMarker_def bar_def)

text \<open>A communication linked to two issues, followed by an unlinked one: two row dots, one general dot.\<close>

theorem markers_per_communication_witness:
  "resolvedIssues [leak, mold] (c_linked_issue_ids bothEmail) = [leak, mold]
   \<and> map m_cy (dotsIn (drawnChildren
        (timelineEffect refPlatform marchFirst [leak, mold] [bothEmail, generalCall] (Some wideSvg))))
       = [175 / 2, 425 / 2, - 15]
   \<and> map rect_y (barsIn (drawnChildren
        (timelineEffect refPlatform marchFirst [leak, mold] [bothEmail, generalCall] (Some wideSvg))))
       = [50, 175]
   \<and> map rect_height (barsIn (drawnChildren
        (timelineEffect refPlatform marchFirst [leak, mold] [bothEmail, generalCall] (Some wideSvg))))
       = [75, 75]"
  using markers_per_communication
    [of refPlatform marchFirst "[leak, mold]" "[bothEmail, generalCall]" wideSvg
        "xScale refPlatform marchFirst [leak, mold] [bothEmail, generalCall] (chartWidth wideSvg)"
        "yScale refPlatform [leak, mold] (totalHeight [leak, mold])" bothEmail leak 0]
  by (simp add: timelineEffect_def drawnChildren_def xScale_def yScale_def allDates_def extent_def
        chartWidth_def totalHeight_def rowHeight_def minHeight_def margin_top_def
        margin_right_def margin_bottom_def margin_left_def drawMarkers_def commMarkers_def
        issueMarker_def generalMarker_def bar_def truncateLabel_def severityFill_def Let_def
        refPlatform_def refParseDate_def refScaleTime_def refScaleBand_def niceDays_def
        msPerDay_def marchFirst_def
        resolvedIssues_def List.map_filter_simps wideSvg_def leak_def mold_def leakEmail_def
        bothEmail_def generalCall_def)

text \<open>On every platform, a communication none of whose linked ids resolves gets the general dot alone.\<close>

lemma unresolved_links_go_general:
  "resolvedIssues issueList (c_linked_issue_ids comm) = [] \<Longrightarrow>
     commMarkers pf x y issueList [] comm = [generalMarker pf x comm]"
  by (simp add: commMarkers_result)

text \<open>
  Claim C1 as stated fails: a Communication whose only linked id is unknown has a
  non-empty \<^verbatim>\<open>linked_issue_ids\<close> and still gets a dot, on the general lane.
\<close>

theorem unresolved_link_counterexample:
  "c_linked_issue_ids ghostEmail = [''ghost'']
   \<and> resolvedIssues [leak, mold] (c_linked_issue_ids ghostEmail) = []
   \<and> map m_cy (dotsIn (drawnChildren
        (timelineEffect refPlatform marchFirst [leak, mold] [ghostEmail] (Some wideSvg))))
       = [- 15]
   \<and> map m_title (dotsIn (drawnChildren
        (timelineEffect refPlatform marchFirst [leak, mold] [ghostEmail] (Some wideSvg))))
       = [''General email: The sink is leaking'']"
  by (simp add: timelineEffect_def drawnChildren_def xScale_def yScale_def allDates_def extent_def
        chartWidth_def totalHeight_def rowHeight_def minHeight_def margin_top_def
        margin_right_def margin_bottom_def margin_left_def drawMarkers_def commMarkers_def
        issueMarker_def generalMarker_def bar_def truncateLabel_def severityFill_def Let_def
        refPlatform_def refParseDate_def refScaleTime_def refScaleBand_def niceDays_def
        msPerDay_def marchFirst_def
        resolvedIssues_def List.map_filter_simps wideSvg_def leak_def mold_def leakEmail_def
        ghostEmail_def)

subsection \<open>Bars\<close>

lemma drawBars_length: "length (drawBars pf clock x y k ds) = length ds"
  by (induction ds arbitrary: k) simp_all

lemma drawBars_nth:
  "j < length ds \<Longrightarrow> drawBars pf clock x y k ds ! j = bar pf x y (clock (Suc (k + j))) (ds ! j)"
proof (induction ds arbitrary: k j)
  case Nil
  then show ?case by simp
next
  case (Cons d ds)
  show ?case
  proof (cases j)
    case 0
    then show ?thesis by simp
  next
    case (Suc j')
    with Cons.prems have "j' < length ds" by simp
    from Cons.IH [OF this, of "Suc k"] Suc show ?thesis by simp
  qed
qed

lemma bar_ignores_status: "bar pf x y reading (d\<lparr> i_status := s \<rparr>) = bar pf x y reading d"
  by (simp add: bar_def)

lemma drawBars_ignore_status:
  "drawBars pf clock x y k (map (\<lambda>d. d\<lparr> i_status := f d \<rparr>) ds) = drawBars pf clock x y k ds"
  by (induction ds arbitrary: k) (simp_all add: bar_ignores_status)

lemma effect_ignores_status:
  "timelineEffect pf clock (map (\<lambda>d. d\<lparr> i_status := f d \<rparr>) issueList) comms svgRef
     = timelineEffect pf clock issueList comms svgRef"
proof -
  have titles: "map (i_title \<circ> (\<lambda>d. d\<lparr> i_status := f d \<rparr>)) issueList = map i_title issueList"
    by simp
  have dates: "map ((\<lambda>d. parseDate pf (i_first_noticed_at d)) \<circ> (\<lambda>d. d\<lparr> i_status := f d \<rparr>)) issueList
      = map (\<lambda>d. parseDate pf (i_first_noticed_at d)) issueList"
    by simp
  have finds: "find (\<lambda>i. i_id i = issueId) (map (\<lambda>d. d\<lparr> i_status := f d \<rparr>) issueList)
      = map_option (\<lambda>d. d\<lparr> i_status := f d \<rparr>) (find (\<lambda>i. i_id i = issueId) issueList)"
    for issueId
    by (induction issueList) simp_all
  have marker: "issueMarker pf x y comm (d\<lparr> i_status := s \<rparr>) = issueMarker pf x y comm d"
    for x y comm d s
    by (simp add: issueMarker_def)
  have loop: "linkLoop pf x y (map (\<lambda>d. d\<lparr> i_status := f d \<rparr>) issueList) comm ids st
      = linkLoop pf x y issueList comm ids st" for x y comm ids st
  proof (induction ids arbitrary: st)
    case Nil
    show ?case by simp
  next
    case (Cons issueId ids)
    show ?case
      by (cases st; cases "find (\<lambda>i. i_id i = issueId) issueList")
         (simp_all add: finds marker Cons.IH)
  qed
  have markers: "commMarkers pf x y (map (\<lambda>d. d\<lparr> i_status := f d \<rparr>) issueList)
      = commMarkers pf x y issueList" for x y
    by (intro ext) (simp add: commMarkers_def loop)
  have th: "totalHeight (map (\<lambda>d. d\<lparr> i_status := f d \<rparr>) issueList) = totalHeight issueList"
    by (simp add: totalHeight_def)
  have xs: "xScale pf clock (map (\<lambda>d. d\<lparr> i_status := f d \<rparr>) issueList) comms w
      = xScale pf clock issueList comms w" for w
    by (simp add: xScale_def allDates_def dates)
  have ys: "yScale pf (map (\<lambda>d. d\<lparr> i_status := f d \<rparr>) issueList) h = yScale pf issueList h" for h
    by (simp add: yScale_def titles)
  have ms: "drawMarkers pf x y (map (\<lambda>d. d\<lparr> i_status := f d \<rparr>) issueList) comms
      = drawMarkers pf x y issueList comms" for x y
    by (simp add: drawMarkers_def markers)
  show ?thesis
  proof (cases svgRef)
    case None
    then show ?thesis by (simp add: timelineEffect_def)
  next
    case (Some svg)
    then show ?thesis
      by (simp add: timelineEffect_def th xs ys ms drawBars_ignore_status Let_def)
  qed
qed

text \<open>
  Claim C3, as the code has it. The bars of the chart are one per Issue, in order. The
  bar of the Issue at position \<open>k\<close> starts at the position of its \<^verbatim>\<open>first_noticed_at\<close> and
  is as wide as the larger of 5 and the distance from there to the position of the clock
  reading taken for that bar (both undefined when the date does not parse); so its width
  is never below 5, a fixed constant that does not depend on the chart's width, and when
  the distance is at least 5 the bar ends at the clock reading. Changing the status of any
  Issue changes nothing in the chart.
\<close>

theorem bar_extent:
  assumes "k < length issueList"
  shows
    "barsIn (drawnChildren (timelineEffect pf clock issueList comms (Some svg)))
       = drawBars pf clock (xScale pf clock issueList comms (chartWidth svg))
           (yScale pf issueList (totalHeight issueList)) 0 issueList
     \<and> rect_x (drawBars pf clock x y 0 issueList ! k)
         = map_option (ts_apply x) (parseDate pf (i_first_noticed_at (issueList ! k)))
     \<and> rect_width (drawBars pf clock x y 0 issueList ! k)
         = map_option (\<lambda>start. max 5 (ts_apply x (clock (Suc k)) - ts_apply x start))
             (parseDate pf (i_first_noticed_at (issueList ! k)))
     \<and> (\<forall>w. rect_width (drawBars pf clock x y 0 issueList ! k) = Some w \<longrightarrow> 5 \<le> w)
     \<and> (\<forall>start. parseDate pf (i_first_noticed_at (issueList ! k)) = Some start
            \<and> 5 \<le> ts_apply x (clock (Suc k)) - ts_apply x start \<longrightarrow>
          rect_x (drawBars pf clock x y 0 issueList ! k) = Some (ts_apply x start)
          \<and> rect_width (drawBars pf clock x y 0 issueList ! k)
              = Some (ts_apply x (clock (Suc k)) - ts_apply x start))
     \<and> timelineEffect pf clock (map (\<lambda>d. d\<lparr> i_status := newStatus d \<rparr>) issueList) comms (Some svg)
         = timelineEffect pf clock issueList comms (Some svg)"
proof -
  have nth: "drawBars pf clock x y 0 issueList ! k = bar pf x y (clock (Suc k)) (issueList ! k)"
    using drawBars_nth [OF assms, of pf clock x y 0] by simp
  show ?thesis
    unfolding nth
    by (cases "parseDate pf (i_first_noticed_at (issueList ! k))")
       (simp_all add: bars_of_effect effect_ignores_status bar_def Let_def)
qed

text \<open>Two issues, the second resolved: both bars run to the clock reading at the right edge.\<close>

theorem bar_extent_witness:
  "(1::nat) < length [leak, mold]
   \<and> i_status mold = ''resolved''
   \<and> map rect_x (barsIn (drawnChildren
        (timelineEffect refPlatform marchFirst [leak, mold] [] (Some wideSvg))))
       = [Some 0, Some (2449 / 6)]
   \<and> map rect_width (barsIn (drawnChildren
        (timelineEffect refPlatform marchFirst [leak, mold] [] (Some wideSvg))))
       = [Some 790, Some (2291 / 6)]"
proof -
  have k: "(1::nat) < length [leak, mold]" by simp
  from bar_extent [OF k, of refPlatform marchFirst "[]" wideSvg] k
  show ?thesis by (simp add: timelineEffect_def drawnChildren_def xScale_def yScale_def allDates_def extent_def
        chartWidth_def totalHeight_def rowHeight_def minHeight_def margin_top_def
        margin_right_def margin_bottom_def margin_left_def drawMarkers_def commMarkers_def
        issueMarker_def generalMarker_def bar_def truncateLabel_def severityFill_def Let_def
        refPlatform_def refParseDate_def refScaleTime_def refScaleBand_def niceDays_def
        msPerDay_def marchFirst_def
        wideSvg_def leak_def mold_def)
qed

text \<open>On every platform, a bar whose start is the clock reading taken for it is 5 wide.\<close>

lemma same_instant_bar_is_five:
  "parseDate pf (i_first_noticed_at d) = Some reading \<Longrightarrow>
     rect_width (bar pf x y reading d) = Some 5"
  by (simp add: bar_def)

text \<open>
  Claim C3 as stated fails: the minimum is not a fraction of the chart width. A same-day
  issue gets width 5 on a chart 790 wide and on a chart 390 wide.
\<close>

theorem minimum_width_counterexample:
  "map rect_width (barsIn (drawnChildren
      (timelineEffect refPlatform marchFirst [sameDay] [] (Some wideSvg)))) = [Some 5]
   \<and> map rect_width (barsIn (drawnChildren
      (timelineEffect refPlatform marchFirst [sameDay] [] (Some narrowSvg)))) = [Some 5]
   \<and> chartWidth wideSvg = 790
   \<and> chartWidth narrowSvg = 390
   \<and> 5 / chartWidth wideSvg \<noteq> 5 / chartWidth narrowSvg"
  by (simp add: timelineEffect_def drawnChildren_def xScale_def yScale_def allDates_def extent_def
        chartWidth_def totalHeight_def rowHeight_def minHeight_def margin_top_def
        margin_right_def margin_bottom_def margin_left_def drawMarkers_def commMarkers_def
        issueMarker_def generalMarker_def bar_def truncateLabel_def severityFill_def Let_def
        refPlatform_def refParseDate_def refScaleTime_def refScaleBand_def niceDays_def
        msPerDay_def marchFirst_def
        wideSvg_def narrowSvg_def sameDay_def leak_def)

subsection \<open>Determinism\<close>

text \<open>
  The clock enters the chart through its first reading, taken for the time extent, and
  through one reading per bar; when all of these are the same instant the bars are what
  one shared reading gives.
\<close>

lemma allDates_reading:
  "clock 0 = now \<Longrightarrow>
     allDates pf clock issueList comms = allDates pf (\<lambda>k. now) issueList comms"
  by (simp add: allDates_def)

lemma drawBars_one_reading:
  "(\<forall>j. k < j \<and> j \<le> k + length ds \<longrightarrow> clock j = now) \<Longrightarrow>
     drawBars pf clock x y k ds = map (bar pf x y now) ds"
proof (induction ds arbitrary: k)
  case Nil
  show ?case by simp
next
  case (Cons d ds)
  have here: "clock (Suc k) = now"
    using Cons.prems by simp
  have later: "\<forall>j. Suc k < j \<and> j \<le> Suc k + length ds \<longrightarrow> clock j = now"
    using Cons.prems by simp
  show ?case
    by (simp add: here Cons.IH [OF later])
qed

lemma effect_one_reading:
  assumes "\<forall>k \<le> length issueList. clock k = now"
  shows "timelineEffect pf clock issueList comms (Some svg)
       = timelineEffect pf (\<lambda>k. now) issueList comms (Some svg)"
proof -
  have first: "clock 0 = now"
    using assms by simp
  have bars: "drawBars pf clock x y 0 issueList = map (bar pf x y now) issueList" for x y
    using assms by (intro drawBars_one_reading) simp
  have bars': "drawBars pf (\<lambda>k. now) x y 0 issueList = map (bar pf x y now) issueList" for x y
    by (intro drawBars_one_reading) simp
  show ?thesis
    by (simp add: timelineEffect_def xScale_def allDates_reading [of clock now, OF first] bars bars'
          Let_def)
qed

lemma bar_row: "rect_y (bar pf x y reading d) = orZero (bs_apply y (i_title d))"
  by (simp add: bar_def)

text \<open>
  Claim C2, as the code has it. Take two runs of the effect on the same issues and
  communications, on SVG elements of the same width, each with a clock whose readings
  during the run (the first, and one per bar) are all \<open>now\<close>; the clocks may differ
  afterwards and the elements may differ in everything but their width. Then the two
  runs leave the same SVG, and what they draw is a function of the issues, the
  communications, \<open>now\<close> and the width alone: the rows are the band positions of the
  titles, the bars are those of the time scale built from the dates and \<open>now\<close> over the
  width, each ending at \<open>now\<close>, and the dots are those of the communications on the same
  scales.
\<close>

theorem timeline_deterministic:
  assumes "clientWidth svg1 = clientWidth svg2"
    and "\<forall>k \<le> length issueList. clock1 k = now"
    and "\<forall>k \<le> length issueList. clock2 k = now"
  shows
    "timelineEffect pf clock1 issueList comms (Some svg1)
       = timelineEffect pf clock2 issueList comms (Some svg2)
     \<and> map rect_y (barsIn (drawnChildren (timelineEffect pf clock1 issueList comms (Some svg1))))
         = map (\<lambda>d. orZero (bs_apply (yScale pf issueList (totalHeight issueList)) (i_title d)))
             issueList
     \<and> barsIn (drawnChildren (timelineEffect pf clock1 issueList comms (Some svg1)))
         = map (bar pf (xScale pf (\<lambda>k. now) issueList comms (chartWidth svg2))
                  (yScale pf issueList (totalHeight issueList)) now)
             issueList
     \<and> dotsIn (drawnChildren (timelineEffect pf clock1 issueList comms (Some svg1)))
         = concat (map (commMarkers pf (xScale pf (\<lambda>k. now) issueList comms (chartWidth svg2))
                          (yScale pf issueList (totalHeight issueList)) issueList [])
                     comms)"
proof -
  have width: "chartWidth svg1 = chartWidth svg2"
    using assms(1) by (simp add: chartWidth_def)
  have cleared: "svg1\<lparr> svg_children := cs, svg_height := h \<rparr> = svg2\<lparr> svg_children := cs, svg_height := h \<rparr>"
    for cs h
    using assms(1) by (cases svg1, cases svg2) simp
  have same: "timelineEffect pf (\<lambda>k. now) issueList comms (Some svg1)
      = timelineEffect pf (\<lambda>k. now) issueList comms (Some svg2)"
    by (simp add: timelineEffect_def Let_def width assms(1) cleared)
  have run1: "timelineEffect pf clock1 issueList comms (Some svg1)
      = timelineEffect pf (\<lambda>k. now) issueList comms (Some svg2)"
    using effect_one_reading [OF assms(2)] same by simp
  have run2: "timelineEffect pf clock2 issueList comms (Some svg2)
      = timelineEffect pf (\<lambda>k. now) issueList comms (Some svg2)"
    using effect_one_reading [OF assms(3)] by simp
  have bars: "barsIn (drawnChildren (timelineEffect pf (\<lambda>k. now) issueList comms (Some svg2)))
      = map (bar pf (xScale pf (\<lambda>k. now) issueList comms (chartWidth svg2))
               (yScale pf issueList (totalHeight issueList)) now)
          issueList"
    unfolding bars_of_effect by (intro drawBars_one_reading) simp
  have dots: "dotsIn (drawnChildren (timelineEffect pf (\<lambda>k. now) issueList comms (Some svg2)))
      = concat (map (commMarkers pf (xScale pf (\<lambda>k. now) issueList comms (chartWidth svg2))
                       (yScale pf issueList (totalHeight issueList)) issueList [])
                  comms)"
    by (simp add: dots_of_effect drawMarkers_def foldl_commMarkers)
  show ?thesis
    unfolding run1 run2 bars dots by (simp add: bar_row)
qed

text \<open>
  A fresh element and one holding an earlier drawing, of the same width; a clock that
  stands still and one that moves on after the run.
\<close>

theorem timeline_deterministic_witness:
  "clientWidth wideSvg = clientWidth wideSvgDrawn
   \<and> wideSvg \<noteq> wideSvgDrawn
   \<and> marchFirst 0 = 1709251200000 \<and> marchFirst 1 = 1709251200000 \<and> marchFirst 2 = 1709251200000
   \<and> movingClock 0 = 1709251200000 \<and> movingClock 1 = 1709251200000
   \<and> movingClock 2 = 1709251200000 \<and> movingClock 3 = 1709254800000
   \<and> timelineEffect refPlatform marchFirst [leak, mold] [bothEmail] (Some wideSvg)
       = timelineEffect refPlatform movingClock [leak, mold] [bothEmail] (Some wideSvgDrawn)
   \<and> map rect_y (barsIn (drawnChildren
         (timelineEffect refPlatform marchFirst [leak, mold] [bothEmail] (Some wideSvg))))
       = [50, 175]
   \<and> map rect_width (barsIn (drawnChildren
         (timelineEffect refPlatform marchFirst [leak, mold] [bothEmail] (Some wideSvg))))
       = [Some 790, Some (2291 / 6)]
   \<and> map m_cy (dotsIn (drawnChildren
         (timelineEffect refPlatform marchFirst [leak, mold] [bothEmail] (Some wideSvg))))
       = [175 / 2, 425 / 2]"
proof -
  have w: "clientWidth wideSvg = clientWidth wideSvgDrawn"
    by (simp add: wideSvg_def wideSvgDrawn_def)
  have d: "wideSvg \<noteq> wideSvgDrawn"
    by (simp add: wideSvg_def wideSvgDrawn_def)
  have c1: "\<forall>k \<le> length [leak, mold]. marchFirst k = 1709251200000"
    by (simp add: marchFirst_def)
  have c2: "\<forall>k \<le> length [leak, mold]. movingClock k = 1709251200000"
    by (simp add: movingClock_def)
  have readings: "marchFirst 0 = 1709251200000" "marchFirst 1 = 1709251200000"
    "marchFirst 2 = 1709251200000" "movingClock 0 = 1709251200000"
    "movingClock 1 = 1709251200000" "movingClock 2 = 1709251200000"
    "movingClock 3 = 1709254800000"
    by (simp_all add: marchFirst_def movingClock_def)
  from timeline_deterministic [OF w c1 c2, of refPlatform "[bothEmail]"] w d readings
  show ?thesis
    by (simp add: timelineEffect_def drawnChildren_def xScale_def yScale_def allDates_def
          extent_def chartWidth_def totalHeight_def rowHeight_def minHeight_def margin_top_def
          margin_right_def margin_bottom_def margin_left_def drawMarkers_def commMarkers_def
          issueMarker_def generalMarker_def bar_def truncateLabel_def severityFill_def Let_def
          refPlatform_def refParseDate_def refScaleTime_def refScaleBand_def niceDays_def
          msPerDay_def wideSvg_def wideSvgDrawn_def leak_def mold_def leakEmail_def
          bothEmail_def)
qed

text \<open>On every platform, a chart with something to draw differs between elements of different widths.\<close>

lemma width_is_an_input:
  assumes "clientWidth svg1 \<noteq> clientWidth svg2"
    and "issueList \<noteq> [] \<or> comms \<noteq> []"
  shows "drawnChildren (timelineEffect pf clock issueList comms (Some svg1))
       \<noteq> drawnChildren (timelineEffect pf clock issueList comms (Some svg2))"
  using assms by (auto simp: timelineEffect_def drawnChildren_def Let_def chartWidth_def)

text \<open>
  Claim C2 as stated fails: with the same issues, communications and clock, elements of
  different widths get different bar widths and dot positions, since the range of the
  time scale is the element's width less the margins.
\<close>

theorem width_changes_layout_counterexample:
  "map rect_width (barsIn (drawnChildren
      (timelineEffect refPlatform marchFirst [leak] [generalCall] (Some wideSvg))))
     = [Some 790]
   \<and> map rect_width (barsIn (drawnChildren
      (timelineEffect refPlatform marchFirst [leak] [generalCall] (Some narrowSvg))))
     = [Some 390]
   \<and> map m_cx (dotsIn (drawnChildren
      (timelineEffect refPlatform marchFirst [leak] [generalCall] (Some wideSvg))))
     = [Some (2449 / 6)]
   \<and> map m_cx (dotsIn (drawnChildren
      (timelineEffect refPlatform marchFirst [leak] [generalCall] (Some narrowSvg))))
     = [Some (403 / 2)]
   \<and> drawnChildren (timelineEffect refPlatform marchFirst [leak] [generalCall] (Some wideSvg))
     \<noteq> drawnChildren (timelineEffect refPlatform marchFirst [leak] [generalCall] (Some narrowSvg))"
  by (simp add: timelineEffect_def drawnChildren_def xScale_def yScale_def allDates_def extent_def
        chartWidth_def totalHeight_def rowHeight_def minHeight_def margin_top_def
        margin_right_def margin_bottom_def margin_left_def drawMarkers_def commMarkers_def
        issueMarker_def generalMarker_def bar_def truncateLabel_def severityFill_def Let_def
        refPlatform_def refParseDate_def refScaleTime_def refScaleBand_def niceDays_def
        msPerDay_def marchFirst_def
        wideSvg_def narrowSvg_def leak_def leakEmail_def generalCall_def)

subsection \<open>The time domain\<close>

lemma extentFrom_bounds:
  "extentFrom acc vs = Some (lo, hi) \<Longrightarrow>
     (\<forall>v. Some v \<in> set vs \<longrightarrow> lo \<le> v \<and> v \<le> hi)
     \<and> (\<forall>a b. acc = Some (a, b) \<longrightarrow> lo \<le> a \<and> b \<le> hi)"
proof (induction acc vs rule: extentFrom.induct)
  case (1 acc)
  then show ?case by simp
next
  case (2 acc vs)
  then show ?case by simp
next
  case (3 v vs)
  then show ?case by fastforce
next
  case (4 lo' hi' v vs)
  from "4.IH" [OF "4.prems" [simplified]]
  show ?case by (auto split: if_splits)
qed

lemma extentFrom_defined:
  "Some v \<in> set vs \<or> acc \<noteq> None \<Longrightarrow> extentFrom acc vs \<noteq> None"
  by (induction acc vs rule: extentFrom.induct) auto

lemma extent_allDates_defined: "extent (allDates pf clock issueList comms) \<noteq> None"
proof -
  have "Some (clock 0) \<in> set (allDates pf clock issueList comms)"
    by (simp add: allDates_def)
  then show ?thesis
    unfolding extent_def by (intro extentFrom_defined disjI1)
qed

lemma extent_bounds:
  "extent vs = Some (lo, hi) \<Longrightarrow> Some v \<in> set vs \<Longrightarrow> lo \<le> v \<and> v \<le> hi"
  unfolding extent_def using extentFrom_bounds [of None vs lo hi] by blast

lemma extentFrom_attained:
  "extentFrom acc vs = Some (lo, hi) \<Longrightarrow>
     (Some lo \<in> set vs \<or> (\<exists>b. acc = Some (lo, b)))
     \<and> (Some hi \<in> set vs \<or> (\<exists>a. acc = Some (a, hi)))"
proof (induction acc vs rule: extentFrom.induct)
  case (1 acc)
  then show ?case by simp
next
  case (2 acc vs)
  then show ?case by simp
next
  case (3 v vs)
  then show ?case by fastforce
next
  case (4 lo' hi' v vs)
  from "4.IH" [OF "4.prems" [simplified]]
  show ?case by (auto split: if_splits)
qed

text \<open>
  The extent of \<^verbatim>\<open>allDates\<close> is always defined, its ends are two of the valid dates, and
  every valid date lies between them.
\<close>

lemma extent_contains_inputs:
  "\<exists>lo hi. extent (allDates pf clock issueList comms) = Some (lo, hi)
     \<and> Some lo \<in> set (allDates pf clock issueList comms)
     \<and> Some hi \<in> set (allDates pf clock issueList comms)
     \<and> (\<forall>v. Some v \<in> set (allDates pf clock issueList comms) \<longrightarrow> lo \<le> v \<and> v \<le> hi)"
proof -
  obtain lo hi where e: "extent (allDates pf clock issueList comms) = Some (lo, hi)"
    using extent_allDates_defined [of pf clock issueList comms] by auto
  from extentFrom_attained [of None _ lo hi] e
  have "Some lo \<in> set (allDates pf clock issueList comms)"
    "Some hi \<in> set (allDates pf clock issueList comms)"
    by (simp_all add: extent_def)
  with e extent_bounds [OF e] show ?thesis by blast
qed

lemma extentFrom_skips_invalid:
  "extentFrom acc (filter (\<lambda>v. v \<noteq> None) vs) = extentFrom acc vs"
  by (induction acc vs rule: extentFrom.induct) simp_all

lemma allDates_valid_only:
  "filter (\<lambda>v. v \<noteq> None) (allDates pf clock issueList comms)
     = allDates pf clock
         (filter (\<lambda>d. parseDate pf (i_first_noticed_at d) \<noteq> None) issueList)
         (filter (\<lambda>c. parseDate pf (c_date c) \<noteq> None) comms)"
  by (simp add: allDates_def filter_map comp_def)

lemma xScale_valid_only:
  "xScale pf clock issueList comms width
     = xScale pf clock
         (filter (\<lambda>d. parseDate pf (i_first_noticed_at d) \<noteq> None) issueList)
         (filter (\<lambda>c. parseDate pf (c_date c) \<noteq> None) comms) width"
proof -
  have "extent (allDates pf clock issueList comms)
      = extent (filter (\<lambda>v. v \<noteq> None) (allDates pf clock issueList comms))"
    by (simp only: extent_def extentFrom_skips_invalid)
  then show ?thesis
    by (simp only: xScale_def allDates_valid_only)
qed

text \<open>
  Claim C4, as the code has it. For every input, provided \<^verbatim>\<open>nice()\<close> extends the extent it
  is given, the domain of the time scale has its minimum at or below, and its maximum at
  or above, every Issue's \<^verbatim>\<open>first_noticed_at\<close> and every Communication's date that parses
  as a date, and the clock reading taken as now. A date that does not parse takes no
  part: the scale is the one the input without those Issues and Communications gets.
\<close>

theorem domain_contains_inputs:
  assumes "niceExtends pf"
  shows
    "(\<forall>d \<in> set issueList. \<forall>t. parseDate pf (i_first_noticed_at d) = Some t \<longrightarrow>
         fst (ts_domain (xScale pf clock issueList comms width)) \<le> t
         \<and> t \<le> snd (ts_domain (xScale pf clock issueList comms width)))
     \<and> (\<forall>c \<in> set comms. \<forall>t. parseDate pf (c_date c) = Some t \<longrightarrow>
         fst (ts_domain (xScale pf clock issueList comms width)) \<le> t
         \<and> t \<le> snd (ts_domain (xScale pf clock issueList comms width)))
     \<and> fst (ts_domain (xScale pf clock issueList comms width)) \<le> clock 0
     \<and> clock 0 \<le> snd (ts_domain (xScale pf clock issueList comms width))
     \<and> xScale pf clock issueList comms width
         = xScale pf clock
             (filter (\<lambda>d. parseDate pf (i_first_noticed_at d) \<noteq> None) issueList)
             (filter (\<lambda>c. parseDate pf (c_date c) \<noteq> None) comms) width"
proof -
  obtain lo hi where e: "extent (allDates pf clock issueList comms) = Some (lo, hi)"
    and all: "\<forall>v. Some v \<in> set (allDates pf clock issueList comms) \<longrightarrow> lo \<le> v \<and> v \<le> hi"
    using extent_contains_inputs [of pf clock issueList comms] by blast
  have inside: "lo \<le> v \<and> v \<le> hi" if "Some v \<in> set (allDates pf clock issueList comms)" for v
    using all that by blast
  have now: "Some (clock 0) \<in> set (allDates pf clock issueList comms)"
    by (simp add: allDates_def)
  have ordered: "lo \<le> hi"
    using inside [OF now] by linarith
  have wider: "fst (ts_domain (xScale pf clock issueList comms width)) \<le> lo"
    "hi \<le> snd (ts_domain (xScale pf clock issueList comms width))"
    using assms ordered by (simp_all add: niceExtends_def xScale_def e)
  have issue: "Some t \<in> set (allDates pf clock issueList comms)"
    if "d \<in> set issueList" "parseDate pf (i_first_noticed_at d) = Some t" for d t
    using that by (force simp: allDates_def)
  have comm: "Some t \<in> set (allDates pf clock issueList comms)"
    if "c \<in> set comms" "parseDate pf (c_date c) = Some t" for c t
    using that by (force simp: allDates_def)
  show ?thesis
  proof (intro conjI ballI allI impI)
    fix d t assume "d \<in> set issueList" "parseDate pf (i_first_noticed_at d) = Some t"
    from inside [OF issue [OF this]] wider
    show "fst (ts_domain (xScale pf clock issueList comms width)) \<le> t"
      and "t \<le> snd (ts_domain (xScale pf clock issueList comms width))" by linarith+
  next
    fix c t assume "c \<in> set comms" "parseDate pf (c_date c) = Some t"
    from inside [OF comm [OF this]] wider
    show "fst (ts_domain (xScale pf clock issueList comms width)) \<le> t"
      and "t \<le> snd (ts_domain (xScale pf clock issueList comms width))" by linarith+
  next
    from inside [OF now] wider
    show "fst (ts_domain (xScale pf clock issueList comms width)) \<le> clock 0"
      and "clock 0 \<le> snd (ts_domain (xScale pf clock issueList comms width))" by linarith+
  next
    show "xScale pf clock issueList comms width
         = xScale pf clock
             (filter (\<lambda>d. parseDate pf (i_first_noticed_at d) \<noteq> None) issueList)
             (filter (\<lambda>c. parseDate pf (c_date c) \<noteq> None) comms) width"
      by (rule xScale_valid_only)
  qed
qed

text \<open>Rounding outwards to whole days extends an extent.\<close>

lemma niceExtends_refPlatform: "niceExtends refPlatform"
proof -
  have "a - a mod msPerDay \<le> a" "a \<le> a + (- a) mod msPerDay" for a
    by (simp_all add: msPerDay_def)
  then show ?thesis
    by (simp add: niceExtends_def refPlatform_def refScaleTime_def niceDays_def Let_def)
qed

text \<open>
  At ten in the morning the extent ends at the clock reading and the domain at the next
  midnight: the domain is wider than the extent, and the issue with a date in words
  changes neither.
\<close>

theorem domain_contains_inputs_witness:
  "niceExtends refPlatform
   \<and> extent (allDates refPlatform tenOClock [mold, vague] [leakEmail]) = Some (1706745600000, 1709287200000)
   \<and> ts_domain (xScale refPlatform tenOClock [mold, vague] [leakEmail] 790)
       = (1706745600000, 1709337600000)
   \<and> parseDate refPlatform (i_first_noticed_at mold) = Some 1706745600000
   \<and> parseDate refPlatform (i_first_noticed_at vague) = None
   \<and> parseDate refPlatform (c_date leakEmail) = Some 1706745600000
   \<and> tenOClock 0 = 1709287200000"
  using domain_contains_inputs [OF niceExtends_refPlatform, of "[mold, vague]" tenOClock "[leakEmail]" 790]
    niceExtends_refPlatform
  by (simp add: xScale_def allDates_def extent_def refPlatform_def refParseDate_def
        refScaleTime_def niceDays_def msPerDay_def tenOClock_def mold_def vague_def leak_def
        leakEmail_def Let_def)

text \<open>
  Claim C4 as stated fails for a date that does not parse: the Issue's
  \<^verbatim>\<open>first_noticed_at\<close> "last week" is an Invalid Date, and the domain's minimum is not at
  or below it, as no comparison with an Invalid Date holds.
\<close>

theorem unparsed_date_counterexample:
  "i_first_noticed_at vague = ''last week''
   \<and> parseDate refPlatform (i_first_noticed_at vague) = None
   \<and> \<not> jsLe (Some (fst (ts_domain (xScale refPlatform tenOClock [vague] [] 790))))
           (parseDate refPlatform (i_first_noticed_at vague))
   \<and> \<not> jsLe (parseDate refPlatform (i_first_noticed_at vague))
           (Some (snd (ts_domain (xScale refPlatform tenOClock [vague] [] 790))))"
  by (simp add: xScale_def allDates_def extent_def refPlatform_def refParseDate_def
        refScaleTime_def niceDays_def msPerDay_def tenOClock_def vague_def leak_def Let_def)

end
